theory Spec2Isabelle
  imports Main "HOL-Library.Sublist"
begin

section \<open>Python built-ins used by the scripts\<close>

text \<open>
  Strings are lists of 8-bit characters, read as the code points below 256; text with
  other characters (among them the Unicode white space and the Unicode digits beyond
  that range) is outside the model.
\<close>

definition NL :: string where
  "NL = [CHR 0x0A]"

text \<open>\<^verbatim>\<open>str.isspace\<close> on one character: tab, line feed, vertical tab, form feed,
  carriage return, the four separators 0x1C..0x1F, the space, the next-line control
  0x85 and the no-break space 0xA0.\<close>

definition py_isspace :: "char \<Rightarrow> bool" where
  "py_isspace c = (c \<in> set [CHR 0x09, CHR 0x0A, CHR 0x0B, CHR 0x0C, CHR 0x0D,
                              CHR 0x1C, CHR 0x1D, CHR 0x1E, CHR 0x1F, CHR 0x20,
                              CHR 0x85, CHR 0xA0])"

text \<open>\<^verbatim>\<open>str.strip()\<close>: white space removed at both ends.\<close>

definition py_strip :: "string \<Rightarrow> string" where
  "py_strip s = rev (dropWhile py_isspace (rev (dropWhile py_isspace s)))"

definition digit_char :: "nat \<Rightarrow> char" where
  "digit_char d = ''0123456789'' ! d"

text \<open>\<^verbatim>\<open>str(n)\<close> for an integer, as the f-strings format \<^verbatim>\<open>{port}\<close>, \<^verbatim>\<open>{interval}\<close>
  and \<^verbatim>\<open>{check_count}\<close>.\<close>

fun str_nat :: "nat \<Rightarrow> string" where
  "str_nat n = (if n < 10 then [digit_char n] else str_nat (n div 10) @ [digit_char (n mod 10)])"

declare str_nat.simps [simp del]

definition str_int :: "int \<Rightarrow> string" where
  "str_int i = (if i < 0 then CHR ''-'' # str_nat (nat (- i)) else str_nat (nat i))"

definition is_digit :: "char \<Rightarrow> bool" where
  "is_digit c = (c \<in> set ''0123456789'')"

definition digit_val :: "char \<Rightarrow> nat" where
  "digit_val c = of_char c - 48"

text \<open>The white space \<^verbatim>\<open>int()\<close> skips at both ends of a string: tab, line feed,
  vertical tab, form feed, carriage return and the space, and the two characters
  beyond ASCII that \<^verbatim>\<open>int()\<close> reads as a space, 0x85 and 0xA0. The separators
  0x1C..0x1F, which \<^verbatim>\<open>str.strip()\<close> removes, are not among them.\<close>

definition int_isspace :: "char \<Rightarrow> bool" where
  "int_isspace c = (c \<in> set [CHR 0x09, CHR 0x0A, CHR 0x0B, CHR 0x0C, CHR 0x0D, CHR 0x20,
                               CHR 0x85, CHR 0xA0])"

definition int_strip :: "string \<Rightarrow> string" where
  "int_strip s = rev (dropWhile int_isspace (rev (dropWhile int_isspace s)))"

text \<open>The digits of a decimal literal as \<^verbatim>\<open>int()\<close> reads it: at least one digit, single
  underscores allowed between digits only. \<open>None\<close> is the \<^verbatim>\<open>ValueError\<close>.\<close>

fun dec_digits :: "string \<Rightarrow> nat list option" where
  "dec_digits [] = None"
| "dec_digits [c] = (if is_digit c then Some [digit_val c] else None)"
| "dec_digits (c # d # cs) =
     (if is_digit c
      then (if d = CHR ''_'' then map_option (Cons (digit_val c)) (dec_digits cs)
            else map_option (Cons (digit_val c)) (dec_digits (d # cs)))
      else None)"

definition dec_value :: "nat list \<Rightarrow> nat" where
  "dec_value ds = foldl (\<lambda>a d. 10 * a + d) 0 ds"

text \<open>The interpreter's limit on the number of digits \<^verbatim>\<open>int()\<close> converts
  (\<^verbatim>\<open>sys.get_int_max_str_digits()\<close>), at its default. Underscores, the sign and the
  white space do not count; a literal with more digits is a \<^verbatim>\<open>ValueError\<close>.\<close>

definition int_max_str_digits :: nat where
  "int_max_str_digits = 4300"

definition dec_literal :: "string \<Rightarrow> nat option" where
  "dec_literal s =
     (case dec_digits s of
        None \<Rightarrow> None
      | Some ds \<Rightarrow> if int_max_str_digits < length ds then None else Some (dec_value ds))"

text \<open>\<^verbatim>\<open>int(s)\<close> for a string, base ten: surrounding white space is dropped, one sign
  may lead, the rest is a decimal literal.\<close>

definition py_int :: "string \<Rightarrow> int option" where
  "py_int s =
     (case int_strip s of
        [] \<Rightarrow> None
      | c # cs \<Rightarrow>
          if c = CHR ''-'' then map_option (\<lambda>v. - int v) (dec_literal cs)
          else if c = CHR ''+'' then map_option int (dec_literal cs)
          else map_option int (dec_literal (c # cs)))"

text \<open>\<^verbatim>\<open>s.rsplit(':', 1)\<close> for a string that holds a colon: the text before the last
  colon and the text after it.\<close>

definition rsplit_colon :: "string \<Rightarrow> string \<times> string" where
  "rsplit_colon s =
     (rev (tl (dropWhile (\<lambda>c. c \<noteq> CHR '':'') (rev s))),
      rev (takeWhile (\<lambda>c. c \<noteq> CHR '':'') (rev s)))"

section \<open>The world the scripts act on\<close>

text \<open>
  What a run leaves behind: the text of every \<^verbatim>\<open>print\<close> call (with its line end), the
  text appended to every file, the argument list of every \<^verbatim>\<open>subprocess.run\<close> call and
  the argument of every \<^verbatim>\<open>time.sleep\<close> call that began to wait, each oldest first. \<^verbatim>\<open>print\<close> is taken
  never to fail.
\<close>

record world =
  console :: "string list"
  files :: "string \<Rightarrow> string list"
  spawned :: "string list list"
  slept :: "int list"

definition print :: "string \<Rightarrow> 'a world_scheme \<Rightarrow> 'a world_scheme" where
  "print text w = w\<lparr>console := console w @ [text @ NL]\<rparr>"

text \<open>The exceptions the scripts meet. \<open>OtherException m\<close> is any exception derived from
  \<^verbatim>\<open>Exception\<close> other than \<^verbatim>\<open>TimeoutExpired\<close>, with \<^verbatim>\<open>str(e) = m\<close>;
  \<^verbatim>\<open>KeyboardInterrupt\<close> derives from \<^verbatim>\<open>BaseException\<close> only, so an
  \<^verbatim>\<open>except Exception\<close> clause lets it pass.\<close>

datatype exn = TimeoutExpired | KeyboardInterrupt | OtherException string

section \<open>check_ssl_certificate\<close>

text \<open>The function is the same text in \<^verbatim>\<open>ssl_check.py\<close>, \<^verbatim>\<open>ssl_checkV2.py\<close>,
  \<^verbatim>\<open>ssl_checkV3.py\<close> and \<^verbatim>\<open>ssl_checker_with_server_and_website.py\<close>. The list
  \<^verbatim>\<open>cmd\<close> it builds:\<close>

definition openssl_command :: "string \<Rightarrow> int \<Rightarrow> string list" where
  "openssl_command hostname port =
     [''bash'', ''-c'',
      ''echo | openssl s_client -connect '' @ hostname @ '':'' @ str_int port @
      '' -servername '' @ hostname @ '' 2>/dev/null | '' @
      ''openssl x509 -noout -subject -issuer -dates -ext subjectAltName'']"

text \<open>
  \<open>run\<close> is what \<^verbatim>\<open>subprocess.run(cmd, capture_output=True, text=True, timeout=30)\<close>
  does for this call: it returns a completed process \<open>Inr (returncode, stdout, stderr)\<close>
  or raises \<open>Inl e\<close>. The result is the returned string, or the exception that leaves
  the function.
\<close>

definition check_ssl_certificate ::
  "(string list \<Rightarrow> exn + int \<times> string \<times> string) \<Rightarrow> string \<Rightarrow> int \<Rightarrow>
     'a world_scheme \<Rightarrow> (exn + string) \<times> 'a world_scheme" where
  "check_ssl_certificate run hostname port w =
     (let cmd = openssl_command hostname port;
          w' = w\<lparr>spawned := spawned w @ [cmd]\<rparr>
      in case run cmd of
           Inr (returncode, out, err) \<Rightarrow>
             if returncode = 0 then (Inr (py_strip out), w')
             else (Inr (''Error: '' @ py_strip err), w')
         | Inl TimeoutExpired \<Rightarrow> (Inr ''Error: Command timed out'', w')
         | Inl (OtherException e) \<Rightarrow> (Inr (''Error: '' @ e), w')
         | Inl KeyboardInterrupt \<Rightarrow> (Inl KeyboardInterrupt, w'))"

text \<open>A check has failed when the subprocess did anything but complete with status 0.\<close>

definition failed_check :: "exn + int \<times> string \<times> string \<Rightarrow> bool" where
  "failed_check outcome = (case outcome of Inr (returncode, out, err) \<Rightarrow> returncode \<noteq> 0 | Inl e \<Rightarrow> True)"

section \<open>write_to_file\<close>

text \<open>
  \<open>fs_append filename text\<close> is what opening \<open>filename\<close> for appending and writing
  \<open>text\<close> does for this call: \<open>None\<close> when the text reached the file, \<open>Some m\<close>
  when an exception \<open>e\<close> derived from \<^verbatim>\<open>Exception\<close> with \<^verbatim>\<open>str(e) = m\<close> was raised
  (the file is then taken to be as it was).
\<close>

definition write_to_file ::
  "(string \<Rightarrow> string \<Rightarrow> string option) \<Rightarrow> string \<Rightarrow> string \<Rightarrow> 'a world_scheme \<Rightarrow> 'a world_scheme" where
  "write_to_file fs_append filename content w =
     (case fs_append filename (content @ NL) of
        None \<Rightarrow> w\<lparr>files := (files w)(filename := files w filename @ [content @ NL])\<rparr>
      | Some e \<Rightarrow> print (''Error writing to file: '' @ e) w)"

section \<open>parse_hostname_port\<close>

text \<open>\<open>Inl m\<close>: the message \<open>m\<close> is printed and \<^verbatim>\<open>sys.exit(1)\<close> is called.\<close>

definition parse_hostname_port :: "string \<Rightarrow> string + string \<times> int" where
  "parse_hostname_port hostname_arg =
     (if CHR '':'' \<in> set hostname_arg
      then (case rsplit_colon hostname_arg of
              (hostname, port_str) \<Rightarrow>
                (case py_int port_str of
                   Some port \<Rightarrow> Inr (hostname, port)
                 | None \<Rightarrow> Inl (''Error: Invalid port number '' @ [CHR 0x27] @ port_str @ [CHR 0x27])))
      else Inr (hostname_arg, 443))"

section \<open>The shell's view of a command line\<close>

text \<open>
  A command line without quotes or backslashes is read by the shell as a sequence of
  lists separated by \<open>;\<close>, each a pipeline of commands separated by \<open>|\<close>.
  \<open>shell_structure\<close> gives the number of pipeline stages of each list.
\<close>

fun split_on :: "char \<Rightarrow> string \<Rightarrow> string list" where
  "split_on sep [] = [[]]"
| "split_on sep (c # cs) =
     (if c = sep then [] # split_on sep cs
      else (case split_on sep cs of [] \<Rightarrow> [[c]] | x # xs \<Rightarrow> (c # x) # xs))"

definition shell_structure :: "string \<Rightarrow> nat list" where
  "shell_structure line = map (\<lambda>l. length (split_on CHR ''|'' l)) (split_on CHR '';'' line)"

text \<open>The command line the check hands to \<^verbatim>\<open>bash -c\<close>: the third element of the
  argument list of the \<^verbatim>\<open>subprocess.run\<close> call it has made.\<close>

definition handed_to_bash ::
  "(string list \<Rightarrow> exn + int \<times> string \<times> string) \<Rightarrow> string \<Rightarrow> int \<Rightarrow> 'a world_scheme \<Rightarrow> string" where
  "handed_to_bash run hostname port w =
     last (spawned (snd (check_ssl_certificate run hostname port w))) ! 2"

definition shell_metachar :: "char \<Rightarrow> bool" where
  "shell_metachar c = (c \<in> set [CHR '';'', CHR ''|'', CHR ''&'', CHR ''$'', CHR ''('', CHR '')'',
                                 CHR ''<'', CHR ''>'', CHR 0x60])"

text \<open>Concrete behaviours of \<^verbatim>\<open>subprocess.run\<close>, for the examples.\<close>

definition completes ::
  "int \<Rightarrow> string \<Rightarrow> string \<Rightarrow> string list \<Rightarrow> exn + int \<times> string \<times> string" where
  "completes returncode out err cmd = Inr (returncode, out, err)"

definition raises :: "exn \<Rightarrow> string list \<Rightarrow> exn + int \<times> string \<times> string" where
  "raises e cmd = Inl e"

definition quiet_world :: world where
  "quiet_world = \<lparr>console = [], files = (\<lambda>name. []), spawned = [], slept = []\<rparr>"

section \<open>The environment of a run\<close>

text \<open>
  A run of \<^verbatim>\<open>main\<close> is followed statement by statement; the statements executed so
  far are counted by a step number. The environment says what the outside world does at
  each step:
  \<^item> \<open>strftime t fmt\<close> is \<^verbatim>\<open>datetime.now().strftime(fmt)\<close>;
  \<^item> \<open>monotonic_ns t\<close> is the reading of the monotonic clock, in nanoseconds;
  \<^item> \<open>subprocess_run t cmd\<close> is what \<^verbatim>\<open>subprocess.run\<close> does for \<open>cmd\<close>;
  \<^item> \<open>append_to t filename text\<close> is what appending \<open>text\<close> to \<open>filename\<close> does;
  \<^item> \<open>sigint t\<close> holds when the interrupt signal has arrived and \<^verbatim>\<open>KeyboardInterrupt\<close>
    is raised before the statement of step \<open>t\<close> is executed;
  \<^item> \<open>sleep_interrupted t\<close> holds when the signal arrives while \<^verbatim>\<open>time.sleep\<close> waits.
  A signal that arrives while \<^verbatim>\<open>subprocess.run\<close> waits is the behaviour
  \<open>Inl KeyboardInterrupt\<close> of \<open>subprocess_run\<close>. A \<^verbatim>\<open>print\<close> or a
  \<^verbatim>\<open>write_to_file\<close> call is one statement: the signal is taken to arrive before or
  after it. The signal is followed from the entry of the \<^verbatim>\<open>try\<close> block on (what
  \<^verbatim>\<open>main\<close> does before it is taken as uninterrupted), and one signal is followed: a
  second one, during the handler, is not.
\<close>

record env =
  strftime :: "nat \<Rightarrow> string \<Rightarrow> string"
  monotonic_ns :: "nat \<Rightarrow> int"
  subprocess_run :: "nat \<Rightarrow> string list \<Rightarrow> exn + int \<times> string \<times> string"
  append_to :: "nat \<Rightarrow> string \<Rightarrow> string \<Rightarrow> string option"
  sigint :: "nat \<Rightarrow> bool"
  sleep_interrupted :: "nat \<Rightarrow> bool"

text \<open>
  \<^verbatim>\<open>time.sleep(secs)\<close> for an integer, as CPython 3.11 does it on Linux. A time is
  kept as a signed 64-bit count of nanoseconds, \<open>pytime_max\<close> at most: the conversion
  of \<open>secs\<close> raises \<^verbatim>\<open>OverflowError\<close> for a number of seconds beyond
  \<open>pytime_max_secs\<close> either way, and \<^verbatim>\<open>ValueError\<close> follows for a negative one.
  The sleep itself waits for a deadline on the monotonic clock, the reading \<open>now_ns\<close>
  plus the duration; a deadline beyond \<open>pytime_max\<close> wraps around, the system call
  rejects it and \<^verbatim>\<open>OSError\<close> (errno 22) is raised. So the longest sleep accepted is
  shorter than \<open>pytime_max\<close> by the reading of the clock. (Later versions let the
  deadline saturate; the sleeps \<open>sleep_accepts\<close> admits are accepted by both.) The
  wording of the messages varies with the version. The first component is the
  exception raised, if any.
\<close>

definition pytime_max :: int where
  "pytime_max = 9223372036854775807"

definition pytime_max_secs :: int where
  "pytime_max_secs = 9223372036"

definition sleep_accepts :: "int \<Rightarrow> int \<Rightarrow> bool" where
  "sleep_accepts now_ns secs =
     (0 \<le> secs \<and> secs \<le> pytime_max_secs \<and> secs * 1000000000 + now_ns \<le> pytime_max)"

definition time_sleep ::
  "bool \<Rightarrow> int \<Rightarrow> int \<Rightarrow> 'a world_scheme \<Rightarrow> exn option \<times> 'a world_scheme" where
  "time_sleep interrupted now_ns secs w =
     (if secs > pytime_max_secs \<or> secs < - pytime_max_secs
      then (Some (OtherException ''timestamp too large to convert to C _PyTime_t''), w)
      else if secs < 0
      then (Some (OtherException ''sleep length must be non-negative''), w)
      else if pytime_max < secs * 1000000000 + now_ns
      then (Some (OtherException ''[Errno 22] Invalid argument''), w)
      else if interrupted
      then (Some KeyboardInterrupt, w\<lparr>slept := slept w @ [secs]\<rparr>)
      else (None, w\<lparr>slept := slept w @ [secs]\<rparr>))"

section \<open>The polling loop\<close>

text \<open>
  How the process stands: still running, ended by \<^verbatim>\<open>sys.exit(code)\<close>, or ended by an
  exception nothing caught (the interpreter prints the traceback and the exit status
  is 1).
\<close>

datatype status = Running | SysExit int | Uncaught exn

fun exit_code :: "status \<Rightarrow> int option" where
  "exit_code Running = None"
| "exit_code (SysExit code) = Some code"
| "exit_code (Uncaught e) = Some 1"

text \<open>The statements of the body of \<^verbatim>\<open>while True\<close>, in order.\<close>

datatype point =
  Increment | Stamp | PrintHeader | LogHeader | Inspect |
  PrintResult | LogResult | PrintSeparator | LogSeparator | Sleep

record machine = world +
  status :: status
  clock :: nat
  pc :: point
  check_count :: int
  timestamp :: string
  result :: string

text \<open>
  The loop and the \<^verbatim>\<open>except KeyboardInterrupt\<close> block are the same text in
  \<^verbatim>\<open>ssl_checkV2.py\<close>, \<^verbatim>\<open>ssl_checkV3.py\<close> and
  \<^verbatim>\<open>ssl_checker_with_server_and_website.py\<close> but for the values below: the host and
  port given to \<^verbatim>\<open>check_ssl_certificate\<close>, the interval, the log file's name, and the
  two f-strings \<^verbatim>\<open>check_header\<close> (of \<^verbatim>\<open>check_count\<close> and \<^verbatim>\<open>timestamp\<close>) and
  \<^verbatim>\<open>final_msg\<close> (of \<^verbatim>\<open>end_time\<close> and \<^verbatim>\<open>check_count\<close>).
\<close>

record loop_cfg =
  cfg_host :: string
  cfg_port :: int
  cfg_interval :: int
  cfg_log :: string
  cfg_header :: "int \<Rightarrow> string \<Rightarrow> string"
  cfg_final :: "string \<Rightarrow> int \<Rightarrow> string"

definition check_header :: "loop_cfg \<Rightarrow> machine \<Rightarrow> string" where
  "check_header cfg s = cfg_header cfg (check_count s) (timestamp s)"

definition separator_line :: string where
  "separator_line = replicate 80 CHR ''-''"

text \<open>One statement of the loop body. The first component is the exception the
  statement raised, if any.\<close>

definition statement :: "env \<Rightarrow> loop_cfg \<Rightarrow> machine \<Rightarrow> exn option \<times> machine" where
  "statement env cfg s =
     (case pc s of
        Increment \<Rightarrow> (None, s\<lparr>pc := Stamp, check_count := check_count s + 1\<rparr>)
      | Stamp \<Rightarrow>
          (None, s\<lparr>pc := PrintHeader, timestamp := strftime env (clock s) ''%Y-%m-%d %H:%M:%S''\<rparr>)
      | PrintHeader \<Rightarrow> (None, (print (check_header cfg s) s)\<lparr>pc := LogHeader\<rparr>)
      | LogHeader \<Rightarrow>
          (None, (write_to_file (append_to env (clock s)) (cfg_log cfg) (check_header cfg s) s)
                   \<lparr>pc := Inspect\<rparr>)
      | Inspect \<Rightarrow>
          (case check_ssl_certificate (subprocess_run env (clock s)) (cfg_host cfg) (cfg_port cfg) s of
             (Inr r, s') \<Rightarrow> (None, s'\<lparr>pc := PrintResult, result := r\<rparr>)
           | (Inl e, s') \<Rightarrow> (Some e, s'))
      | PrintResult \<Rightarrow> (None, (print (result s) s)\<lparr>pc := LogResult\<rparr>)
      | LogResult \<Rightarrow>
          (None, (write_to_file (append_to env (clock s)) (cfg_log cfg) (result s) s)
                   \<lparr>pc := PrintSeparator\<rparr>)
      | PrintSeparator \<Rightarrow> (None, (print separator_line s)\<lparr>pc := LogSeparator\<rparr>)
      | LogSeparator \<Rightarrow>
          (None, (write_to_file (append_to env (clock s)) (cfg_log cfg) separator_line s)
                   \<lparr>pc := Sleep\<rparr>)
      | Sleep \<Rightarrow>
          (case time_sleep (sleep_interrupted env (clock s)) (monotonic_ns env (clock s))
                  (cfg_interval cfg) s of
             (None, s') \<Rightarrow> (None, s'\<lparr>pc := Increment\<rparr>)
           | (Some e, s') \<Rightarrow> (Some e, s')))"

text \<open>The \<^verbatim>\<open>except KeyboardInterrupt\<close> block: three lines printed, the same three
  written to the log, \<^verbatim>\<open>sys.exit(0)\<close>.\<close>

definition on_interrupt :: "env \<Rightarrow> loop_cfg \<Rightarrow> machine \<Rightarrow> machine" where
  "on_interrupt env cfg s =
     (let end_time = strftime env (clock s) ''%Y-%m-%d %H:%M:%S'';
          final_msg = cfg_final cfg end_time (check_count s);
          saved = ''Results saved to: '' @ cfg_log cfg;
          final_separator = replicate 80 CHR ''='';
          s1 = print final_separator (print saved (print final_msg s));
          s2 = write_to_file (append_to env (clock s)) (cfg_log cfg) final_separator
                 (write_to_file (append_to env (clock s)) (cfg_log cfg) saved
                   (write_to_file (append_to env (clock s)) (cfg_log cfg) final_msg s1))
      in s2\<lparr>status := SysExit 0\<rparr>)"

text \<open>
  One step of the process inside the \<^verbatim>\<open>try\<close> block: the pending signal, or the
  statement; a \<^verbatim>\<open>KeyboardInterrupt\<close> runs the handler, any other exception that
  reaches \<^verbatim>\<open>main\<close> ends the process.
\<close>

definition step :: "env \<Rightarrow> loop_cfg \<Rightarrow> machine \<Rightarrow> machine" where
  "step env cfg s =
     (if status s \<noteq> Running then s
      else (case (if sigint env (clock s) then (Some KeyboardInterrupt, s) else statement env cfg s) of
              (None, s') \<Rightarrow> s'\<lparr>clock := clock s + 1\<rparr>
            | (Some KeyboardInterrupt, s') \<Rightarrow> on_interrupt env cfg (s'\<lparr>clock := clock s + 1\<rparr>)
            | (Some e, s') \<Rightarrow> s'\<lparr>status := Uncaught e, clock := clock s + 1\<rparr>))"

text \<open>The process after \<open>n\<close> steps.\<close>

primrec exec :: "env \<Rightarrow> loop_cfg \<Rightarrow> nat \<Rightarrow> machine \<Rightarrow> machine" where
  "exec env cfg 0 s = s"
| "exec env cfg (Suc n) s = step env cfg (exec env cfg n s)"

text \<open>The process before anything is printed; \<^verbatim>\<open>check_count = 0\<close>.\<close>

definition boot :: machine where
  "boot = \<lparr>console = [], files = (\<lambda>name. []), spawned = [], slept = [],
           status = Running, clock = 0, pc = Increment, check_count = 0,
           timestamp = [], result = []\<rparr>"

text \<open>The start-up banner is printed and logged, then the hint is printed.\<close>

definition startup_msg :: "string \<Rightarrow> string" where
  "startup_msg header_details =
     replicate 80 CHR ''='' @ NL @ ''SSL Certificate Monitoring Started'' @ NL @
     replicate 80 CHR ''='' @ NL @ header_details @ NL @ replicate 80 CHR ''=''"

definition hint :: string where
  "hint = ''Press Ctrl+C to stop'' @ NL"

definition announce :: "env \<Rightarrow> string \<Rightarrow> string \<Rightarrow> machine \<Rightarrow> machine" where
  "announce env log_filename header_details s =
     print hint
       (write_to_file (append_to env 0) log_filename (startup_msg header_details)
         (print (startup_msg header_details) s))"

section \<open>ssl_checkV2.py\<close>

text \<open>\<open>argv\<close> is \<^verbatim>\<open>sys.argv[1:]\<close>. The interval is the first argument read by
  \<^verbatim>\<open>int\<close>, or 60; \<open>None\<close> is the \<^verbatim>\<open>ValueError\<close>.\<close>

definition interval_V2 :: "string list \<Rightarrow> int option" where
  "interval_V2 argv = (case argv of [] \<Rightarrow> Some 60 | a # rest \<Rightarrow> py_int a)"

definition log_V2 :: "env \<Rightarrow> string" where
  "log_V2 env =
     ''script_output/ssl_check_'' @ ''login.emory.edu'' @ ''_'' @ strftime env 0 ''%Y%m%d_%H%M%S'' @ ''.log''"

definition cfg_V2 :: "env \<Rightarrow> int \<Rightarrow> loop_cfg" where
  "cfg_V2 env interval =
     \<lparr>cfg_host = ''login.emory.edu'', cfg_port = 443, cfg_interval = interval,
      cfg_log = log_V2 env,
      cfg_header = (\<lambda>count stamp.
        ''[Check #'' @ str_int count @ ''] ['' @ stamp @ ''] Checking SSL certificate...''),
      cfg_final = (\<lambda>end_time count.
        NL @ ''['' @ end_time @ ''] SSL certificate monitoring stopped after '' @
        str_int count @ '' checks.'')\<rparr>"

definition start_V2 :: "env \<Rightarrow> int \<Rightarrow> machine" where
  "start_V2 env interval =
     announce env (log_V2 env)
       (''Target: '' @ ''login.emory.edu'' @ '':'' @ str_int 443 @ NL @
        ''Interval: '' @ str_int interval @ '' seconds'' @ NL @
        ''Log file: '' @ log_V2 env @ NL @
        ''Started: '' @ strftime env 0 ''%Y-%m-%d %H:%M:%S'') boot"

definition main_V2 :: "env \<Rightarrow> string list \<Rightarrow> nat \<Rightarrow> machine" where
  "main_V2 env argv n =
     (case interval_V2 argv of
        None \<Rightarrow> (print ''Usage: python ssl_check.py [interval_seconds]'' boot)\<lparr>status := SysExit 1\<rparr>
      | Some interval \<Rightarrow> exec env (cfg_V2 env interval) n (start_V2 env interval))"

section \<open>ssl_checkV3.py\<close>

text \<open>
  The command line as \<^verbatim>\<open>argparse\<close> meets it: the text it takes as the value of each
  option (as written in \<^verbatim>\<open>--port=TEXT\<close>), if the option was given, and whether \<^verbatim>\<open>-h\<close> or \<^verbatim>\<open>--help\<close> stands on it before anything
  \<^verbatim>\<open>argparse\<close> rejects. \<^verbatim>\<open>parse_args\<close> prints the help and ends the process with
  status 0 when help is asked for; it ends the process with status 2 when a required
  option is missing or when \<^verbatim>\<open>int\<close> rejects the port or the interval. Command lines
  with unknown or repeated options, or with an option that finds no value, are outside
  the record (\<^verbatim>\<open>argparse\<close> ends them with status 2), and the texts \<^verbatim>\<open>argparse\<close>
  prints are not modelled.
\<close>

datatype 'a parsed = Help | Rejected | Accepted 'a

record args_V3 =
  arg_help :: bool
  arg_website :: "string option"
  arg_port :: "string option"
  arg_interval :: "string option"

definition int_option :: "int \<Rightarrow> string option \<Rightarrow> int option" where
  "int_option dflt given = (case given of None \<Rightarrow> Some dflt | Some text \<Rightarrow> py_int text)"

definition parse_args_V3 :: "args_V3 \<Rightarrow> (string \<times> int \<times> int) parsed" where
  "parse_args_V3 args =
     (if arg_help args then Help
      else (case (arg_website args, int_option 443 (arg_port args), int_option 60 (arg_interval args)) of
              (Some website, Some port, Some interval) \<Rightarrow> Accepted (website, port, interval)
            | _ \<Rightarrow> Rejected))"

definition clean_name :: "string \<Rightarrow> string" where
  "clean_name website =
     map (\<lambda>c. if c = CHR '':'' \<or> c = CHR ''/'' \<or> c = CHR ''.'' then CHR ''_'' else c) website"

definition log_V3 :: "env \<Rightarrow> string \<Rightarrow> int \<Rightarrow> string" where
  "log_V3 env website port =
     ''ssl_check_'' @ clean_name website @ ''_'' @ str_int port @ ''_'' @
     strftime env 0 ''%Y%m%d_%H%M%S'' @ ''.log''"

definition cfg_V3 :: "env \<Rightarrow> string \<Rightarrow> int \<Rightarrow> int \<Rightarrow> loop_cfg" where
  "cfg_V3 env website port interval =
     \<lparr>cfg_host = website, cfg_port = port, cfg_interval = interval,
      cfg_log = log_V3 env website port,
      cfg_header = (\<lambda>count stamp.
        ''[Check #'' @ str_int count @ ''] ['' @ stamp @ ''] Checking SSL certificate for '' @
        website @ '':'' @ str_int port @ ''...''),
      cfg_final = (\<lambda>end_time count.
        NL @ ''['' @ end_time @ ''] SSL certificate monitoring for '' @ website @ '':'' @
        str_int port @ '' stopped after '' @ str_int count @ '' checks.'')\<rparr>"

definition start_V3 :: "env \<Rightarrow> string \<Rightarrow> int \<Rightarrow> int \<Rightarrow> machine" where
  "start_V3 env website port interval =
     announce env (log_V3 env website port)
       (''Website: '' @ website @ NL @ ''Port: '' @ str_int port @ NL @
        ''Interval: '' @ str_int interval @ '' seconds'' @ NL @
        ''Log file: '' @ log_V3 env website port @ NL @
        ''Started: '' @ strftime env 0 ''%Y-%m-%d %H:%M:%S'') boot"

definition main_V3 :: "env \<Rightarrow> args_V3 \<Rightarrow> nat \<Rightarrow> machine" where
  "main_V3 env args n =
     (case parse_args_V3 args of
        Help \<Rightarrow> boot\<lparr>status := SysExit 0\<rparr>
      | Rejected \<Rightarrow> boot\<lparr>status := SysExit 2\<rparr>
      | Accepted (website, port, interval) \<Rightarrow>
          if interval \<le> 0
          then (print ''Error: Interval must be a positive number'' boot)\<lparr>status := SysExit 1\<rparr>
          else if port \<le> 0 \<or> port > 65535
          then (print ''Error: Port must be between 1 and 65535'' boot)\<lparr>status := SysExit 1\<rparr>
          else exec env (cfg_V3 env website port interval) n (start_V3 env website port interval))"

section \<open>ssl_checker_with_server_and_website.py\<close>

record args_server =
  srv_help :: bool
  srv_server :: "string option"
  srv_website :: "string option"
  srv_interval :: "string option"

definition parse_args_server :: "args_server \<Rightarrow> (string \<times> string \<times> int) parsed" where
  "parse_args_server args =
     (if srv_help args then Help
      else (case (srv_server args, srv_website args, int_option 60 (srv_interval args)) of
              (Some server, Some website, Some interval) \<Rightarrow> Accepted (server, website, interval)
            | _ \<Rightarrow> Rejected))"

definition log_server :: "env \<Rightarrow> string \<Rightarrow> string" where
  "log_server env website =
     ''ssl_check_'' @ clean_name website @ ''_'' @ strftime env 0 ''%Y%m%d_%H%M%S'' @ ''.log''"

definition cfg_server :: "env \<Rightarrow> string \<Rightarrow> int \<Rightarrow> string \<Rightarrow> int \<Rightarrow> loop_cfg" where
  "cfg_server env hostname port website interval =
     \<lparr>cfg_host = hostname, cfg_port = port, cfg_interval = interval,
      cfg_log = log_server env website,
      cfg_header = (\<lambda>count stamp.
        ''[Check #'' @ str_int count @ ''] ['' @ stamp @ ''] Checking SSL certificate for '' @
        website @ '' ('' @ hostname @ '':'' @ str_int port @ '')...''),
      cfg_final = (\<lambda>end_time count.
        NL @ ''['' @ end_time @ ''] SSL certificate monitoring for '' @ website @
        '' stopped after '' @ str_int count @ '' checks.'')\<rparr>"

definition start_server :: "env \<Rightarrow> string \<Rightarrow> int \<Rightarrow> string \<Rightarrow> int \<Rightarrow> machine" where
  "start_server env hostname port website interval =
     announce env (log_server env website)
       (''Server: '' @ hostname @ '':'' @ str_int port @ NL @ ''Website: '' @ website @ NL @
        ''Interval: '' @ str_int interval @ '' seconds'' @ NL @
        ''Log file: '' @ log_server env website @ NL @
        ''Started: '' @ strftime env 0 ''%Y-%m-%d %H:%M:%S'') boot"

definition main_server :: "env \<Rightarrow> args_server \<Rightarrow> nat \<Rightarrow> machine" where
  "main_server env args n =
     (case parse_args_server args of
        Help \<Rightarrow> boot\<lparr>status := SysExit 0\<rparr>
      | Rejected \<Rightarrow> boot\<lparr>status := SysExit 2\<rparr>
      | Accepted (server, website, interval) \<Rightarrow>
          if interval \<le> 0
          then (print ''Error: Interval must be a positive number'' boot)\<lparr>status := SysExit 1\<rparr>
          else (case parse_hostname_port server of
                  Inl message \<Rightarrow> (print message boot)\<lparr>status := SysExit 1\<rparr>
                | Inr (hostname, port) \<Rightarrow>
                    exec env (cfg_server env hostname port website interval) n
                      (start_server env hostname port website interval)))"

section \<open>When the signal reaches the loop\<close>

text \<open>The position of a statement in the loop body.\<close>

fun idx :: "point \<Rightarrow> nat" where
  "idx Increment = 0"
| "idx Stamp = 1"
| "idx PrintHeader = 2"
| "idx LogHeader = 3"
| "idx Inspect = 4"
| "idx PrintResult = 5"
| "idx LogResult = 6"
| "idx PrintSeparator = 7"
| "idx LogSeparator = 8"
| "idx Sleep = 9"

text \<open>
  The run is interrupted at step \<open>t\<close> when the signal is pending before the statement,
  or arrives while the statement waits for the subprocess (the fifth statement of a
  cycle) or sleeps (the tenth).
\<close>

definition interrupted :: "env \<Rightarrow> loop_cfg \<Rightarrow> nat \<Rightarrow> bool" where
  "interrupted env cfg t =
     (sigint env t \<or>
      (t mod 10 = 4 \<and>
       subprocess_run env t (openssl_command (cfg_host cfg) (cfg_port cfg)) = Inl KeyboardInterrupt) \<or>
      (t mod 10 = 9 \<and> sleep_interrupted env t))"

definition cancelled_before :: "env \<Rightarrow> loop_cfg \<Rightarrow> nat \<Rightarrow> bool" where
  "cancelled_before env cfg n = (\<exists>t<n. interrupted env cfg t)"

section \<open>Checks counted and checks made\<close>

text \<open>
  How \<^verbatim>\<open>check_count\<close> stands to the number of \<^verbatim>\<open>subprocess.run\<close> calls: one ahead
  from the increment until the check of the cycle is made, equal from then on. A process
  that has ended at the check itself ended before the call (one ahead) or in it (equal).
\<close>

definition counted :: "machine \<Rightarrow> bool" where
  "counted s =
     (if pc s = Stamp \<or> pc s = PrintHeader \<or> pc s = LogHeader
      then check_count s = int (length (spawned s)) + 1
      else if pc s = Inspect
      then (if status s = Running then check_count s = int (length (spawned s)) + 1
            else check_count s = int (length (spawned s)) \<or>
                 check_count s = int (length (spawned s)) + 1)
      else check_count s = int (length (spawned s)))"

section \<open>Console and log\<close>

text \<open>The statements that write to the log what the statement before them printed.\<close>

definition mid_pair :: "point \<Rightarrow> bool" where
  "mid_pair p = (p = LogHeader \<or> p = LogResult \<or> p = LogSeparator)"

text \<open>The line a running process has printed and not yet written to the log.\<close>

definition owed :: "loop_cfg \<Rightarrow> machine \<Rightarrow> string list" where
  "owed cfg s =
     (if status s \<noteq> Running then []
      else if pc s = LogHeader then [check_header cfg s @ NL]
      else if pc s = LogResult then [result s @ NL]
      else if pc s = LogSeparator then [separator_line @ NL]
      else [])"

text \<open>
  The console and the log agree but for the hint \<open>h\<close>: the log is not empty, and the
  console is the log's first entry, the hint, the rest of the log, and the line still
  owed to the log.
\<close>

definition mirrored :: "loop_cfg \<Rightarrow> string \<Rightarrow> machine \<Rightarrow> bool" where
  "mirrored cfg h s =
     (files s (cfg_log cfg) \<noteq> [] \<and>
      console s = hd (files s (cfg_log cfg)) # h # tl (files s (cfg_log cfg)) @ owed cfg s)"

section \<open>Environments for the examples\<close>

text \<open>A target that refuses the connection: the pipeline's last command finds no
  certificate and exits with status 1. Every append succeeds; no signal arrives; the
  monotonic clock stands at one hour.\<close>

definition refused :: "string list \<Rightarrow> exn + int \<times> string \<times> string" where
  "refused cmd = Inr (1, [], ''unable to load certificate'' @ NL)"

definition fixed_clock :: "string \<Rightarrow> string" where
  "fixed_clock fmt = (if fmt = ''%Y%m%d_%H%M%S'' then ''20250101_120000'' else ''2025-01-01 12:00:00'')"

definition calm_env :: env where
  "calm_env = \<lparr>strftime = (\<lambda>t. fixed_clock), monotonic_ns = (\<lambda>t. 3600000000000),
               subprocess_run = (\<lambda>t. refused),
               append_to = (\<lambda>t filename text. None), sigint = (\<lambda>t. False),
               sleep_interrupted = (\<lambda>t. False)\<rparr>"


text \<open>The signal arrives as the loop is entered.\<close>

definition prompt_ctrl_c_env :: env where
  "prompt_ctrl_c_env = calm_env\<lparr>sigint := (\<lambda>t. t = 0)\<rparr>"

text \<open>The signal arrives in the first cycle after the check header is printed, before
  it is logged and before the check is made.\<close>

definition header_ctrl_c_env :: env where
  "header_ctrl_c_env = calm_env\<lparr>sigint := (\<lambda>t. t = 3)\<rparr>"

text \<open>No file can be written.\<close>

definition denied :: "string \<Rightarrow> string \<Rightarrow> string option" where
  "denied filename text = Some ''[Errno 13] Permission denied''"

definition readonly_env :: env where
  "readonly_env = calm_env\<lparr>append_to := (\<lambda>t. denied)\<rparr>"

section \<open>Facts about the built-ins\<close>

lemmas int_eval = py_int_def int_strip_def int_isspace_def dec_literal_def int_max_str_digits_def
  is_digit_def digit_val_def dec_value_def

lemma rsplit_colon_app: "CHR '':'' \<notin> set ds \<Longrightarrow> rsplit_colon (host @ CHR '':'' # ds) = (host, ds)"
  by (simp add: rsplit_colon_def takeWhile_append dropWhile_append takeWhile_eq_all_conv[THEN iffD2] dropWhile_eq_Nil_conv[THEN iffD2])

lemma is_digit_not_space: "is_digit c \<Longrightarrow> \<not> int_isspace c"
  by (auto simp: is_digit_def int_isspace_def)

lemma int_strip_digits:
  assumes "ds \<noteq> []" and "list_all is_digit ds"
  shows "int_strip ds = ds"
proof -
  have a: "\<not> int_isspace (hd ds)"
    using assms by (cases ds) (auto simp: is_digit_not_space)
  have "last ds \<in> set ds"
    using assms(1) by simp
  then have b: "\<not> int_isspace (last ds)"
    using assms(2) by (auto simp: list_all_iff is_digit_not_space)
  have "dropWhile int_isspace ds = ds"
    using a by (simp add: dropWhile_eq_self_iff)
  moreover have "dropWhile int_isspace (rev ds) = rev ds"
    using b assms(1) by (simp add: dropWhile_eq_self_iff hd_rev)
  ultimately show ?thesis
    by (simp add: int_strip_def)
qed

lemma dec_digits_all: "ds \<noteq> [] \<Longrightarrow> list_all is_digit ds \<Longrightarrow> dec_digits ds = Some (map digit_val ds)"
  by (induction ds rule: dec_digits.induct) (auto simp: is_digit_def)

lemma py_int_digits:
  assumes "ds \<noteq> []" and "list_all is_digit ds"
  shows "py_int ds =
           (if int_max_str_digits < length ds then None
            else Some (int (dec_value (map digit_val ds))))"
proof -
  obtain c cs where ds: "ds = c # cs"
    using assms(1) by (cases ds) auto
  have "is_digit c"
    using assms(2) ds by simp
  then have "c \<noteq> CHR ''-''" and "c \<noteq> CHR ''+''"
    by (auto simp: is_digit_def)
  moreover have "dec_literal ds =
      (if int_max_str_digits < length ds then None else Some (dec_value (map digit_val ds)))"
    using dec_digits_all [OF assms] by (simp add: dec_literal_def)
  ultimately show ?thesis
    using int_strip_digits [OF assms] ds by (simp add: py_int_def)
qed

lemma digits_no_colon:
  assumes "list_all is_digit ds"
  shows "CHR '':'' \<notin> set ds"
proof
  assume "CHR '':'' \<in> set ds"
  with assms have "is_digit CHR '':''"
    by (simp add: list_all_iff)
  then show False
    by (simp add: is_digit_def)
qed

lemma parse_host_digits:
  assumes "ds \<noteq> []" and "list_all is_digit ds"
  shows "parse_hostname_port (host @ '':'' @ ds) =
           (if int_max_str_digits < length ds
            then Inl (''Error: Invalid port number '' @ [CHR 0x27] @ ds @ [CHR 0x27])
            else Inr (host, int (dec_value (map digit_val ds))))"
proof -
  have "rsplit_colon (host @ '':'' @ ds) = (host, ds)"
    using rsplit_colon_app [OF digits_no_colon [OF assms(2)], of host] by simp
  then show ?thesis
    using py_int_digits [OF assms] by (simp add: parse_hostname_port_def)
qed

section \<open>Parsing the combined server argument\<close>

text \<open>
  Claim C6, as amended. \<^verbatim>\<open>parse_hostname_port("example.com:8443")\<close> returns the
  host \<^verbatim>\<open>example.com\<close> and the port 8443; for every argument that is a host, a colon
  and a run of one to 4300 decimal digits (the interpreter's default limit for
  \<^verbatim>\<open>int\<close>) it returns that host and the integer the digits write; for every
  argument without a colon it returns the argument and port 443.
\<close>

theorem parse_hostname_port_spec:
  "parse_hostname_port ''example.com:8443'' = Inr (''example.com'', 8443) \<and>
   (\<forall>host ds. ds \<noteq> [] \<and> list_all is_digit ds \<and> length ds \<le> int_max_str_digits \<longrightarrow>
      parse_hostname_port (host @ '':'' @ ds) = Inr (host, int (dec_value (map digit_val ds)))) \<and>
   (\<forall>arg. CHR '':'' \<notin> set arg \<longrightarrow> parse_hostname_port arg = Inr (arg, 443))"
proof (intro conjI allI impI)
  show "parse_hostname_port ''example.com:8443'' = Inr (''example.com'', 8443)"
    by (simp add: parse_hostname_port_def rsplit_colon_def int_eval)
next
  fix host ds
  assume h: "ds \<noteq> [] \<and> list_all is_digit ds \<and> length ds \<le> int_max_str_digits"
  then show "parse_hostname_port (host @ '':'' @ ds) = Inr (host, int (dec_value (map digit_val ds)))"
    using parse_host_digits [of ds host] by simp
next
  fix arg :: string
  assume "CHR '':'' \<notin> set arg"
  then show "parse_hostname_port arg = Inr (arg, 443)"
    by (simp add: parse_hostname_port_def)
qed

theorem parse_hostname_port_spec_witness:
  "parse_hostname_port ''[::1]:443'' = Inr (''[::1]'', 443) \<and>
   parse_hostname_port ''login.emory.edu'' = Inr (''login.emory.edu'', 443)"
proof -
  have d: "''443'' \<noteq> [] \<and> list_all is_digit ''443'' \<and> length ''443'' \<le> int_max_str_digits"
    by (simp add: is_digit_def int_max_str_digits_def)
  have v: "int (dec_value (map digit_val ''443'')) = 443"
    by (simp add: dec_value_def digit_val_def)
  have c: "CHR '':'' \<notin> set ''login.emory.edu''"
    by simp
  have "parse_hostname_port (''[::1]'' @ '':'' @ ''443'') = Inr (''[::1]'', int (dec_value (map digit_val ''443'')))"
    using parse_hostname_port_spec [THEN conjunct2, THEN conjunct1, rule_format, OF d] .
  then have "parse_hostname_port ''[::1]:443'' = Inr (''[::1]'', 443)"
    using v by simp
  moreover have "parse_hostname_port ''login.emory.edu'' = Inr (''login.emory.edu'', 443)"
    using parse_hostname_port_spec [THEN conjunct2, THEN conjunct2, rule_format, OF c] .
  ultimately show ?thesis
    by (rule conjI)
qed

text \<open>
  Claim C6 as stated fails: for a host, a colon and 4301 digits, \<^verbatim>\<open>int\<close> raises
  \<^verbatim>\<open>ValueError\<close> (the literal is over the interpreter's limit), and the function
  prints the error message and ends the process with exit code 1; it returns no port.
\<close>

theorem port_of_4301_digits_is_refused:
  "parse_hostname_port (''example.com'' @ '':'' @ replicate 4301 CHR ''1'') =
     Inl (''Error: Invalid port number '' @ [CHR 0x27] @ replicate 4301 CHR ''1'' @ [CHR 0x27])"
proof -
  have a: "replicate 4301 CHR ''1'' \<noteq> []"
    by simp
  have b: "list_all is_digit (replicate 4301 CHR ''1'')"
    by (simp add: list_all_iff is_digit_def)
  show ?thesis
    using parse_host_digits [OF a b, of "''example.com''"]
    by (simp add: int_max_str_digits_def)
qed

section \<open>What check_ssl_certificate returns\<close>

text \<open>
  Claim C10, as amended. For every host and port and every behaviour of the subprocess
  call other than raising \<^verbatim>\<open>KeyboardInterrupt\<close>, \<^verbatim>\<open>check_ssl_certificate\<close>
  returns a string: the stripped standard output when the subprocess completed with
  status 0, and a string beginning with \<^verbatim>\<open>Error:\<close> in every other case.
\<close>

theorem check_ssl_certificate_returns:
  assumes "run (openssl_command hostname port) \<noteq> Inl KeyboardInterrupt"
  shows "\<exists>s. fst (check_ssl_certificate run hostname port w) = Inr s \<and>
           (case run (openssl_command hostname port) of
              Inr (returncode, out, err) \<Rightarrow>
                if returncode = 0 then s = py_strip out else prefix ''Error:'' s
            | Inl e \<Rightarrow> prefix ''Error:'' s)"
  using assms
  by (auto simp: check_ssl_certificate_def Let_def split: sum.splits exn.splits prod.splits)

theorem check_ssl_certificate_returns_witness:
  "\<exists>s. fst (check_ssl_certificate (raises (OtherException ''[Errno 2] No such file or directory''))
             ''login.emory.edu'' 443 quiet_world) = Inr s \<and> prefix ''Error:'' s"
proof -
  have "raises (OtherException ''[Errno 2] No such file or directory'')
          (openssl_command ''login.emory.edu'' 443) \<noteq> Inl KeyboardInterrupt"
    by (simp add: raises_def)
  with check_ssl_certificate_returns
         [where run = "raises (OtherException ''[Errno 2] No such file or directory'')"
            and hostname = "''login.emory.edu''" and port = 443 and w = quiet_world]
  show ?thesis
    by (simp add: raises_def)
qed

text \<open>
  Claim C10 as stated fails: when \<^verbatim>\<open>subprocess.run\<close> raises
  \<^verbatim>\<open>KeyboardInterrupt\<close>, neither \<^verbatim>\<open>except\<close> clause catches it and the exception
  leaves \<^verbatim>\<open>check_ssl_certificate\<close>.
\<close>

theorem check_ssl_certificate_lets_interrupt_pass:
  "fst (check_ssl_certificate (raises KeyboardInterrupt) ''login.emory.edu'' 443 quiet_world)
     = Inl KeyboardInterrupt"
  by (simp add: check_ssl_certificate_def raises_def)

text \<open>
  Claim C1, as amended. A failed check that returns gives a string made of
  \<^verbatim>\<open>Error: \<close> and a message (there are no failure kinds); when the subprocess call
  ran past its 30 second timeout the message is \<^verbatim>\<open>Command timed out\<close>; and the
  call has run \<^verbatim>\<open>subprocess.run\<close> once, on the one command (no retry).
\<close>

theorem failed_check_gives_error_string:
  assumes "failed_check (run (openssl_command hostname port))"
    and "run (openssl_command hostname port) \<noteq> Inl KeyboardInterrupt"
  shows "\<exists>m. check_ssl_certificate run hostname port w =
               (Inr (''Error: '' @ m), w\<lparr>spawned := spawned w @ [openssl_command hostname port]\<rparr>) \<and>
             (run (openssl_command hostname port) = Inl TimeoutExpired \<longrightarrow> m = ''Command timed out'')"
  using assms
  by (auto simp: check_ssl_certificate_def failed_check_def Let_def
      split: sum.splits exn.splits prod.splits)

theorem failed_check_gives_error_string_witness:
  "\<exists>m. check_ssl_certificate (raises TimeoutExpired) ''login.emory.edu'' 443 quiet_world =
          (Inr (''Error: '' @ m),
           quiet_world\<lparr>spawned := spawned quiet_world @ [openssl_command ''login.emory.edu'' 443]\<rparr>) \<and>
        m = ''Command timed out''"
proof -
  have a: "failed_check (raises TimeoutExpired (openssl_command ''login.emory.edu'' 443))"
    by (simp add: failed_check_def raises_def)
  have b: "raises TimeoutExpired (openssl_command ''login.emory.edu'' 443) \<noteq> Inl KeyboardInterrupt"
    by (simp add: raises_def)
  from a b failed_check_gives_error_string
         [where run = "raises TimeoutExpired" and hostname = "''login.emory.edu''"
            and port = 443 and w = quiet_world]
  show ?thesis
    by (simp add: raises_def)
qed

text \<open>
  Claim C1 as stated fails: the value returned for a subprocess that completed in time
  with status 1 and the words \<^verbatim>\<open>Command timed out\<close> on its standard error is the
  value returned for a subprocess that ran past the timeout, so the returned value does
  not tell a timeout from another failure.
\<close>

theorem timeout_string_without_timeout:
  "fst (check_ssl_certificate (completes 1 [] ''Command timed out'') ''login.emory.edu'' 443 quiet_world)
     = Inr ''Error: Command timed out'' \<and>
   fst (check_ssl_certificate (raises TimeoutExpired) ''login.emory.edu'' 443 quiet_world)
     = Inr ''Error: Command timed out'' \<and>
   completes 1 [] ''Command timed out'' (openssl_command ''login.emory.edu'' 443)
     \<noteq> raises TimeoutExpired (openssl_command ''login.emory.edu'' 443)"
  by (simp add: check_ssl_certificate_def completes_def raises_def py_strip_def py_isspace_def)

section \<open>The command line handed to the shell\<close>

lemma split_on_length: "length (split_on sep s) = Suc (length (filter (\<lambda>c. c = sep) s))"
  by (induction s) (auto split: list.splits)

lemma digit_char_of: "d < 10 \<Longrightarrow> digit_char d \<in> set ''0123456789''"
  unfolding digit_char_def by (rule nth_mem) simp

lemma str_nat_digits: "set (str_nat n) \<subseteq> set ''0123456789''"
proof (induction n rule: str_nat.induct)
  case (1 n)
  show ?case
  proof (cases "n < 10")
    case True
    then show ?thesis
      using digit_char_of [of n] by (subst str_nat.simps) simp
  next
    case False
    have "n mod 10 < 10"
      by simp
    then have "digit_char (n mod 10) \<in> set ''0123456789''"
      by (rule digit_char_of)
    then show ?thesis
      using False 1 by (subst str_nat.simps) simp
  qed
qed

lemma str_int_no_semicolon: "filter (\<lambda>c. c = CHR '';'') (str_int port) = []"
proof -
  have "CHR '';'' \<notin> set ''0123456789''"
    by simp
  then have "CHR '';'' \<notin> set (str_nat n)" for n
    using str_nat_digits [of n] by blast
  then have "CHR '';'' \<notin> set (str_int port)"
    by (simp add: str_int_def)
  then show ?thesis
    by (auto simp: filter_empty_conv)
qed

lemma handed_to_bash_text:
  "handed_to_bash run hostname port w =
     ''echo | openssl s_client -connect '' @ hostname @ '':'' @ str_int port @
     '' -servername '' @ hostname @
     '' 2>/dev/null | openssl x509 -noout -subject -issuer -dates -ext subjectAltName''"
  by (simp add: handed_to_bash_def check_ssl_certificate_def openssl_command_def Let_def
      split: sum.splits exn.splits prod.splits)

text \<open>
  Claim C9. The one \<^verbatim>\<open>subprocess.run\<close> call \<^verbatim>\<open>check_ssl_certificate\<close> makes is of
  \<^verbatim>\<open>bash -c\<close> on a text into which the host and the port are put as they are, with no
  quoting, and the outcome of the check is the outcome of that command. The shell reads
  the text as a sequence of lists whose number grows by two with every \<open>;\<close> in the
  host. The hosts \<^verbatim>\<open>example.com\<close> and \<^verbatim>\<open>example.com;\<close> differ only in a shell
  metacharacter, and the shell reads the first command line as one pipeline of three
  commands and the second as three lists of two, one and two commands.
\<close>

theorem host_is_interpolated_unquoted:
  "spawned (snd (check_ssl_certificate run hostname port w)) =
     spawned w @
     [[''bash'', ''-c'',
       ''echo | openssl s_client -connect '' @ hostname @ '':'' @ str_int port @
       '' -servername '' @ hostname @
       '' 2>/dev/null | openssl x509 -noout -subject -issuer -dates -ext subjectAltName'']] \<and>
   fst (check_ssl_certificate run hostname port w) =
     fst (check_ssl_certificate
            (\<lambda>cmd. run [''bash'', ''-c'', handed_to_bash run hostname port w]) hostname port w) \<and>
   length (split_on CHR '';'' (handed_to_bash run hostname port w)) =
     1 + 2 * length (filter (\<lambda>c. c = CHR '';'') hostname) \<and>
   filter (\<lambda>c. \<not> shell_metachar c) ''example.com;'' = ''example.com'' \<and>
   shell_structure (handed_to_bash run ''example.com'' 443 w) = [3] \<and>
   shell_structure (handed_to_bash run ''example.com;'' 443 w) = [2, 1, 2]"
proof (intro conjI)
  show "spawned (snd (check_ssl_certificate run hostname port w)) =
     spawned w @
     [[''bash'', ''-c'',
       ''echo | openssl s_client -connect '' @ hostname @ '':'' @ str_int port @
       '' -servername '' @ hostname @
       '' 2>/dev/null | openssl x509 -noout -subject -issuer -dates -ext subjectAltName'']]"
    by (simp add: check_ssl_certificate_def openssl_command_def Let_def
        split: sum.splits exn.splits prod.splits)
next
  have "[''bash'', ''-c'', handed_to_bash run hostname port w] = openssl_command hostname port"
    by (simp add: handed_to_bash_text openssl_command_def)
  then show "fst (check_ssl_certificate run hostname port w) =
     fst (check_ssl_certificate
            (\<lambda>cmd. run [''bash'', ''-c'', handed_to_bash run hostname port w]) hostname port w)"
    by (simp add: check_ssl_certificate_def Let_def)
next
  show "length (split_on CHR '';'' (handed_to_bash run hostname port w)) =
     1 + 2 * length (filter (\<lambda>c. c = CHR '';'') hostname)"
    by (subst split_on_length) (simp add: handed_to_bash_text str_int_no_semicolon)
next
  show "filter (\<lambda>c. \<not> shell_metachar c) ''example.com;'' = ''example.com''"
    by (simp add: shell_metachar_def)
next
  show "shell_structure (handed_to_bash run ''example.com'' 443 w) = [3]"
    by (simp add: handed_to_bash_text shell_structure_def str_int_def str_nat.simps digit_char_def)
next
  show "shell_structure (handed_to_bash run ''example.com;'' 443 w) = [2, 1, 2]"
    by (simp add: handed_to_bash_text shell_structure_def str_int_def str_nat.simps digit_char_def)
qed

section \<open>Facts about the loop\<close>

lemma status_print [simp]: "status (print text (s::machine)) = status s"
  and clock_print [simp]: "clock (print text s) = clock s"
  and pc_print [simp]: "pc (print text s) = pc s"
  and check_count_print [simp]: "check_count (print text s) = check_count s"
  and spawned_print [simp]: "spawned (print text s) = spawned s"
  and slept_print [simp]: "slept (print text s) = slept s"
  and files_print [simp]: "files (print text s) = files s"
  and result_print [simp]: "result (print text s) = result s"
  and timestamp_print [simp]: "timestamp (print text s) = timestamp s"
  by (simp_all add: print_def)

lemma status_write [simp]: "status (write_to_file a f c (s::machine)) = status s"
  and clock_write [simp]: "clock (write_to_file a f c s) = clock s"
  and pc_write [simp]: "pc (write_to_file a f c s) = pc s"
  and check_count_write [simp]: "check_count (write_to_file a f c s) = check_count s"
  and spawned_write [simp]: "spawned (write_to_file a f c s) = spawned s"
  and slept_write [simp]: "slept (write_to_file a f c s) = slept s"
  and result_write [simp]: "result (write_to_file a f c s) = result s"
  and timestamp_write [simp]: "timestamp (write_to_file a f c s) = timestamp s"
  by (simp_all add: write_to_file_def print_def split: option.splits)

lemma status_on_interrupt [simp]: "status (on_interrupt env cfg s) = SysExit 0"
  and check_count_on_interrupt [simp]: "check_count (on_interrupt env cfg s) = check_count s"
  and spawned_on_interrupt [simp]: "spawned (on_interrupt env cfg s) = spawned s"
  and pc_on_interrupt [simp]: "pc (on_interrupt env cfg s) = pc s"
  by (simp_all add: on_interrupt_def Let_def)

lemma step_stopped [simp]: "status s \<noteq> Running \<Longrightarrow> step env cfg s = s"
  by (simp add: step_def)

lemma step_sigint: "status s = Running \<Longrightarrow> sigint env (clock s) \<Longrightarrow>
    step env cfg s = on_interrupt env cfg (s\<lparr>clock := clock s + 1\<rparr>)"
  by (simp add: step_def)

lemma announce_fields [simp]:
  "status (announce env l h s) = status s"
  "clock (announce env l h s) = clock s"
  "pc (announce env l h s) = pc s"
  "check_count (announce env l h s) = check_count s"
  "spawned (announce env l h s) = spawned s"
  "slept (announce env l h s) = slept s"
  by (simp_all add: announce_def)

lemma boot_fields [simp]:
  "status boot = Running" "clock boot = 0" "pc boot = Increment" "check_count boot = 0"
  "spawned boot = []" "slept boot = []" "console boot = []" "files boot = (\<lambda>name. [])"
  by (simp_all add: boot_def)

lemma cfg_interval_V2 [simp]: "cfg_interval (cfg_V2 env interval) = interval"
  by (simp add: cfg_V2_def)

lemma cfg_interval_V3 [simp]: "cfg_interval (cfg_V3 env website port interval) = interval"
  by (simp add: cfg_V3_def)

lemma start_V2_fields [simp]:
  "status (start_V2 env i) = Running" "clock (start_V2 env i) = 0" "pc (start_V2 env i) = Increment"
  "check_count (start_V2 env i) = 0" "spawned (start_V2 env i) = []" "slept (start_V2 env i) = []"
  by (simp_all add: start_V2_def)

lemma start_V3_fields [simp]:
  "status (start_V3 env w p i) = Running" "clock (start_V3 env w p i) = 0"
  "pc (start_V3 env w p i) = Increment" "check_count (start_V3 env w p i) = 0"
  "spawned (start_V3 env w p i) = []" "slept (start_V3 env w p i) = []"
  by (simp_all add: start_V3_def)

lemma cfg_V3_target [simp]:
  "cfg_host (cfg_V3 env website port interval) = website"
  "cfg_port (cfg_V3 env website port interval) = port"
  by (simp_all add: cfg_V3_def)

lemma cfg_V2_target [simp]:
  "cfg_host (cfg_V2 env interval) = ''login.emory.edu''"
  "cfg_port (cfg_V2 env interval) = 443"
  by (simp_all add: cfg_V2_def)

lemma cfg_server_fields [simp]:
  "cfg_host (cfg_server env hostname port website interval) = hostname"
  "cfg_port (cfg_server env hostname port website interval) = port"
  "cfg_interval (cfg_server env hostname port website interval) = interval"
  by (simp_all add: cfg_server_def)

lemma start_server_fields [simp]:
  "status (start_server env h p w i) = Running" "clock (start_server env h p w i) = 0"
  "pc (start_server env h p w i) = Increment" "check_count (start_server env h p w i) = 0"
  "spawned (start_server env h p w i) = []" "slept (start_server env h p w i) = []"
  by (simp_all add: start_server_def)

lemma div_step_9: "n mod 10 = 9 \<Longrightarrow> Suc n div 10 = Suc (n div 10)"
  by (simp add: div_Suc mod_Suc)

lemma div_step_other: "n mod 10 \<noteq> 9 \<Longrightarrow> Suc n div 10 = n div 10"
  by (simp add: div_Suc mod_Suc)

lemma shifted_div: "(n + k) div 10 = n div 10 + (n mod 10 + k) div (10::nat)"
proof -
  have "(10 * (n div 10) + (n mod 10 + k)) div 10 = n div 10 + (n mod 10 + k) div 10"
    by (simp only: div_mult_self4 [of 10 "n div 10"] zero_neq_numeral not_False_eq_True)
  then show ?thesis
    by (simp add: add.assoc [symmetric])
qed

lemma count_step_0:
  assumes "n mod 10 = 0"
  shows "(Suc n + 9) div 10 = Suc ((n + 9) div 10)"
  using shifted_div [of n 10] shifted_div [of n 9] assms by (simp add: add.commute)

lemma count_step_other:
  assumes "n mod 10 \<noteq> 0"
  shows "(Suc n + 9) div 10 = (n + 9) div 10"
proof -
  have "0 < n mod 10" and "n mod 10 < 10"
    using assms by simp_all
  then have "(n mod 10 + 10) div 10 = 1" and "(n mod 10 + 9) div 10 = 1"
    by simp_all
  then show ?thesis
    using shifted_div [of n 10] shifted_div [of n 9] by (simp add: add.commute)
qed

lemma spawn_step_4:
  assumes "n mod 10 = 4"
  shows "(Suc n + 5) div 10 = Suc ((n + 5) div 10)"
  using shifted_div [of n 6] shifted_div [of n 5] assms by (simp add: add.commute)

lemma spawn_step_other:
  assumes "n mod 10 \<noteq> 4"
  shows "(Suc n + 5) div 10 = (n + 5) div 10"
proof (cases "n mod 10 < 4")
  case True
  then have "(n mod 10 + 6) div 10 = 0" and "(n mod 10 + 5) div 10 = 0"
    by simp_all
  then show ?thesis
    using shifted_div [of n 6] shifted_div [of n 5] by (simp add: add.commute)
next
  case False
  with assms have "4 < n mod 10" and "n mod 10 < 10"
    by simp_all
  then have "(n mod 10 + 6) div 10 = 1" and "(n mod 10 + 5) div 10 = 1"
    by simp_all
  then show ?thesis
    using shifted_div [of n 6] shifted_div [of n 5] by (simp add: add.commute)
qed

lemma past_inspect: "4 < Suc n mod 10 \<Longrightarrow> n mod 10 \<noteq> 4 \<Longrightarrow> 4 < n mod 10"
  by (simp add: mod_Suc split: if_splits)

lemma idx_iff:
  "pc s = Increment \<longleftrightarrow> idx (pc s) = 0"
  "pc s = Inspect \<longleftrightarrow> idx (pc s) = 4"
  "pc s = Sleep \<longleftrightarrow> idx (pc s) = 9"
  by (cases "pc s"; simp)+

text \<open>A step at which the run is not interrupted: the statement is executed and the
  process goes on to the next one.\<close>

lemma step_quiet:
  assumes "status s = Running" and "\<not> interrupted env cfg (clock s)"
    and "clock s mod 10 = idx (pc s)"
    and "pc s = Sleep \<longrightarrow> sleep_accepts (monotonic_ns env (clock s)) (cfg_interval cfg)"
  shows "status (step env cfg s) = Running \<and> clock (step env cfg s) = Suc (clock s) \<and>
         idx (pc (step env cfg s)) = Suc (idx (pc s)) mod 10 \<and>
         slept (step env cfg s) = (if pc s = Sleep then slept s @ [cfg_interval cfg] else slept s) \<and>
         check_count (step env cfg s) = (if pc s = Increment then check_count s + 1 else check_count s) \<and>
         spawned (step env cfg s) =
           (if pc s = Inspect then spawned s @ [openssl_command (cfg_host cfg) (cfg_port cfg)]
            else spawned s) \<and>
         (if pc s = Inspect
          then failed_check (subprocess_run env (clock s) (openssl_command (cfg_host cfg) (cfg_port cfg)))
               \<longrightarrow> prefix ''Error: '' (result (step env cfg s))
          else result (step env cfg s) = result s)"
  using assms
  by (cases "pc s")
     (auto simp: step_def statement_def interrupted_def check_ssl_certificate_def failed_check_def
        time_sleep_def sleep_accepts_def Let_def split: sum.splits exn.splits prod.splits)


lemma mod_10_Sleep: "pc s = Sleep \<Longrightarrow> idx (pc s) = n mod 10 \<Longrightarrow> n mod 10 = 9"
  by simp

text \<open>The first \<open>n\<close> steps of a run that is not interrupted in them and whose sleeps are
  accepted.\<close>

lemma loop_prefix:
  assumes "status s0 = Running" and "clock s0 = 0" and "pc s0 = Increment"
    and "check_count s0 = 0" and "slept s0 = []" and "spawned s0 = []"
    and "\<forall>t<n. t mod 10 = 9 \<longrightarrow> sleep_accepts (monotonic_ns env t) (cfg_interval cfg)"
    and "\<not> cancelled_before env cfg n"
  shows "status (exec env cfg n s0) = Running \<and> clock (exec env cfg n s0) = n \<and>
         idx (pc (exec env cfg n s0)) = n mod 10 \<and>
         slept (exec env cfg n s0) = replicate (n div 10) (cfg_interval cfg) \<and>
         check_count (exec env cfg n s0) = int ((n + 9) div 10) \<and>
         spawned (exec env cfg n s0) =
           replicate ((n + 5) div 10) (openssl_command (cfg_host cfg) (cfg_port cfg)) \<and>
         ((\<forall>t<n. failed_check (subprocess_run env t (openssl_command (cfg_host cfg) (cfg_port cfg))))
            \<longrightarrow> 4 < n mod 10 \<longrightarrow> prefix ''Error: '' (result (exec env cfg n s0)))"
  using assms(7,8)
proof (induction n)
  case 0
  show ?case
    using assms(1-6) by simp
next
  case (Suc n)
  define s where "s = exec env cfg n s0"
  have "\<forall>t<n. t mod 10 = 9 \<longrightarrow> sleep_accepts (monotonic_ns env t) (cfg_interval cfg)"
    using Suc.prems(1) by simp
  moreover have nc: "\<not> cancelled_before env cfg n"
    using Suc.prems(2) by (auto simp: cancelled_before_def intro: less_SucI)
  ultimately have ih: "status s = Running \<and> clock s = n \<and> idx (pc s) = n mod 10 \<and>
         slept s = replicate (n div 10) (cfg_interval cfg) \<and>
         check_count s = int ((n + 9) div 10) \<and>
         spawned s = replicate ((n + 5) div 10) (openssl_command (cfg_host cfg) (cfg_port cfg)) \<and>
         ((\<forall>t<n. failed_check (subprocess_run env t (openssl_command (cfg_host cfg) (cfg_port cfg))))
            \<longrightarrow> 4 < n mod 10 \<longrightarrow> prefix ''Error: '' (result s))"
    unfolding s_def by (rule Suc.IH)
  then have run: "status s = Running" and clk: "clock s = n"
    and pos: "idx (pc s) = n mod 10"
    and sl: "slept s = replicate (n div 10) (cfg_interval cfg)"
    and cc: "check_count s = int ((n + 9) div 10)"
    and sp: "spawned s = replicate ((n + 5) div 10) (openssl_command (cfg_host cfg) (cfg_port cfg))"
    and res: "(\<forall>t<n. failed_check (subprocess_run env t (openssl_command (cfg_host cfg) (cfg_port cfg))))
            \<longrightarrow> 4 < n mod 10 \<longrightarrow> prefix ''Error: '' (result s)"
    by simp_all
  have q: "\<not> interrupted env cfg (clock s)"
    using Suc.prems(2) clk by (auto simp: cancelled_before_def)
  have pos': "clock s mod 10 = idx (pc s)"
    using clk pos by simp
  have iv: "pc s = Sleep \<longrightarrow> sleep_accepts (monotonic_ns env (clock s)) (cfg_interval cfg)"
  proof
    assume "pc s = Sleep"
    then have "n mod 10 = 9"
      using pos by simp
    then show "sleep_accepts (monotonic_ns env (clock s)) (cfg_interval cfg)"
      using Suc.prems(1) clk by simp
  qed
  note st = step_quiet [OF run q pos' iv]
  have st1: "status (step env cfg s) = Running" and st2: "clock (step env cfg s) = Suc n"
    and st3: "idx (pc (step env cfg s)) = Suc (n mod 10) mod 10"
    and st4: "slept (step env cfg s) = (if n mod 10 = 9 then slept s @ [cfg_interval cfg] else slept s)"
    and st5: "check_count (step env cfg s) = (if n mod 10 = 0 then check_count s + 1 else check_count s)"
    and st6: "if n mod 10 = 4
          then failed_check (subprocess_run env n (openssl_command (cfg_host cfg) (cfg_port cfg)))
               \<longrightarrow> prefix ''Error: '' (result (step env cfg s))
          else result (step env cfg s) = result s"
    and st7: "spawned (step env cfg s) =
           (if n mod 10 = 4 then spawned s @ [openssl_command (cfg_host cfg) (cfg_port cfg)]
            else spawned s)"
    using st clk pos by (simp_all add: idx_iff)
  have a: "idx (pc (step env cfg s)) = Suc n mod 10"
    using st3 by (simp add: mod_Suc_eq)
  have b: "slept (step env cfg s) = replicate (Suc n div 10) (cfg_interval cfg)"
  proof (cases "n mod 10 = 9")
    case True
    then show ?thesis
      using st4 sl by (simp add: div_step_9 replicate_append_same)
  next
    case False
    then show ?thesis
      using st4 sl by (simp add: div_step_other)
  qed
  have c: "check_count (step env cfg s) = int ((Suc n + 9) div 10)"
  proof (cases "n mod 10 = 0")
    case True
    then show ?thesis
      using st5 cc count_step_0 [OF True] by simp
  next
    case False
    then show ?thesis
      using st5 cc count_step_other [OF False] by simp
  qed
  have e: "spawned (step env cfg s) =
      replicate ((Suc n + 5) div 10) (openssl_command (cfg_host cfg) (cfg_port cfg))"
  proof (cases "n mod 10 = 4")
    case True
    then show ?thesis
      using st7 sp spawn_step_4 [OF True] by (simp add: replicate_append_same)
  next
    case False
    then show ?thesis
      using st7 sp spawn_step_other [OF False] by simp
  qed
  have d: "(\<forall>t<Suc n. failed_check (subprocess_run env t (openssl_command (cfg_host cfg) (cfg_port cfg))))
            \<longrightarrow> 4 < Suc n mod 10 \<longrightarrow> prefix ''Error: '' (result (step env cfg s))"
  proof (intro impI)
    assume f: "\<forall>t<Suc n. failed_check (subprocess_run env t (openssl_command (cfg_host cfg) (cfg_port cfg)))"
    assume h: "4 < Suc n mod 10"
    show "prefix ''Error: '' (result (step env cfg s))"
    proof (cases "n mod 10 = 4")
      case True
      then show ?thesis
        using st6 f by simp
    next
      case False
      with h have "4 < n mod 10"
        by (rule past_inspect)
      then show ?thesis
        using st6 False res f by simp
    qed
  qed
  have "exec env cfg (Suc n) s0 = step env cfg s"
    by (simp add: s_def)
  then show ?case
    using st1 st2 a b c d e by simp
qed


lemma calm_env_fields [simp]:
  "sigint calm_env t = False" "sleep_interrupted calm_env t = False"
  "subprocess_run calm_env t = refused" "append_to calm_env t name text = None"
  "strftime calm_env t = fixed_clock" "monotonic_ns calm_env t = 3600000000000"
  by (simp_all add: calm_env_def)

lemma refused_fails [simp]:
  "failed_check (refused cmd)" "refused cmd \<noteq> Inl KeyboardInterrupt"
  by (simp_all add: refused_def failed_check_def)

lemma calm_env_not_cancelled [simp]: "\<not> cancelled_before calm_env cfg n"
  by (simp add: cancelled_before_def interrupted_def)

lemma sleep_accepts_60 [simp]: "sleep_accepts 3600000000000 60"
  by (simp add: sleep_accepts_def pytime_max_secs_def pytime_max_def)

lemma step_sleep_rejected:
  assumes "status s = Running" and "\<not> sigint env (clock s)" and "pc s = Sleep"
    and "cfg_interval cfg < 0 \<or> pytime_max_secs < cfg_interval cfg"
  shows "status (step env cfg s) =
           Uncaught (OtherException
             (if pytime_max_secs < cfg_interval cfg \<or> cfg_interval cfg < - pytime_max_secs
              then ''timestamp too large to convert to C _PyTime_t''
              else ''sleep length must be non-negative'')) \<and>
         spawned (step env cfg s) = spawned s \<and> slept (step env cfg s) = slept s \<and>
         check_count (step env cfg s) = check_count s"
  using assms
  by (auto simp: step_def statement_def time_sleep_def)

lemma not_nine: "t < 9 \<Longrightarrow> t mod 10 \<noteq> (9::nat)"
  by simp

lemma first_cycle_then_sleep_rejected:
  assumes "status s0 = Running" and "clock s0 = 0" and "pc s0 = Increment"
    and "check_count s0 = 0" and "slept s0 = []" and "spawned s0 = []"
    and "cfg_interval cfg < 0 \<or> pytime_max_secs < cfg_interval cfg"
  shows "status (exec calm_env cfg 10 s0) =
           Uncaught (OtherException
             (if pytime_max_secs < cfg_interval cfg \<or> cfg_interval cfg < - pytime_max_secs
              then ''timestamp too large to convert to C _PyTime_t''
              else ''sleep length must be non-negative'')) \<and>
         spawned (exec calm_env cfg 10 s0) = [openssl_command (cfg_host cfg) (cfg_port cfg)] \<and>
         slept (exec calm_env cfg 10 s0) = []"
proof -
  have sl9: "\<forall>t<9. t mod 10 = 9 \<longrightarrow> sleep_accepts (monotonic_ns calm_env t) (cfg_interval cfg)"
    using not_nine by blast
  have nine: "status (exec calm_env cfg 9 s0) = Running \<and> clock (exec calm_env cfg 9 s0) = 9 \<and>
         idx (pc (exec calm_env cfg 9 s0)) = 9 mod 10 \<and>
         slept (exec calm_env cfg 9 s0) = replicate (9 div 10) (cfg_interval cfg) \<and>
         check_count (exec calm_env cfg 9 s0) = int ((9 + 9) div 10) \<and>
         spawned (exec calm_env cfg 9 s0) =
           replicate ((9 + 5) div 10) (openssl_command (cfg_host cfg) (cfg_port cfg)) \<and>
         ((\<forall>t<9. failed_check (subprocess_run calm_env t (openssl_command (cfg_host cfg) (cfg_port cfg))))
            \<longrightarrow> 4 < (9::nat) mod 10 \<longrightarrow> prefix ''Error: '' (result (exec calm_env cfg 9 s0)))"
    by (rule loop_prefix [OF assms(1-6) sl9]) simp
  then have r: "status (exec calm_env cfg 9 s0) = Running"
    and p: "pc (exec calm_env cfg 9 s0) = Sleep"
    and sp: "spawned (exec calm_env cfg 9 s0) = [openssl_command (cfg_host cfg) (cfg_port cfg)]"
    and sl: "slept (exec calm_env cfg 9 s0) = []"
    by (simp_all add: idx_iff)
  have "exec calm_env cfg 10 s0 = step calm_env cfg (exec calm_env cfg 9 s0)"
    by (simp add: eval_nat_numeral)
  then show ?thesis
    using step_sleep_rejected [OF r _ p assms(7), of calm_env] sp sl by simp
qed

section \<open>Exit codes\<close>




section \<open>A target that cannot be reached\<close>

text \<open>
  Claim C5, as amended, for \<^verbatim>\<open>ssl_checkV3.py\<close> with a command line that passes its
  checks. When no signal arrives, every check fails, and \<^verbatim>\<open>time.sleep\<close> accepts the
  interval whenever it is called (the interval is at most \<open>pytime_max_secs\<close> seconds
  and, added to the monotonic clock, stays within \<open>pytime_max\<close> nanoseconds), the
  process is still running after any number of steps, at the place in the cycle the
  step count gives; it has counted one check per cycle begun, has started one check
  per cycle that reached the call, has slept the configured interval after each
  completed cycle, and every check has returned a string beginning with
  \<^verbatim>\<open>Error: \<close> (there are no failure kinds).
\<close>

theorem unreachable_target_polls_on:
  assumes "parse_args_V3 args = Accepted (website, port, interval)"
    and "0 < interval" and "0 < port" and "port \<le> 65535"
    and "\<forall>t. sleep_accepts (monotonic_ns env t) interval"
    and "\<forall>t. \<not> sigint env t \<and> \<not> sleep_interrupted env t"
    and "\<forall>t cmd. failed_check (subprocess_run env t cmd) \<and> subprocess_run env t cmd \<noteq> Inl KeyboardInterrupt"
  shows "status (main_V3 env args n) = Running \<and>
         idx (pc (main_V3 env args n)) = n mod 10 \<and>
         check_count (main_V3 env args n) = int ((n + 9) div 10) \<and>
         spawned (main_V3 env args n) = replicate ((n + 5) div 10) (openssl_command website port) \<and>
         slept (main_V3 env args n) = replicate (n div 10) interval \<and>
         (4 < n mod 10 \<longrightarrow> prefix ''Error: '' (result (main_V3 env args n)))"
proof -
  have m: "main_V3 env args n =
      exec env (cfg_V3 env website port interval) n (start_V3 env website port interval)"
    using assms(1-4) by (simp add: main_V3_def)
  have iv: "\<forall>t<n. t mod 10 = 9 \<longrightarrow>
      sleep_accepts (monotonic_ns env t) (cfg_interval (cfg_V3 env website port interval))"
    using assms(5) by simp
  have q: "\<not> cancelled_before env (cfg_V3 env website port interval) n"
    using assms(6,7) by (simp add: cancelled_before_def interrupted_def)
  have f: "\<forall>t<n. failed_check (subprocess_run env t
          (openssl_command (cfg_host (cfg_V3 env website port interval))
             (cfg_port (cfg_V3 env website port interval))))"
    using assms(7) by simp
  from loop_prefix [where ?s0.0 = "start_V3 env website port interval"
      and cfg = "cfg_V3 env website port interval" and env = env and n = n, OF _ _ _ _ _ _ iv q] f
  show ?thesis
    unfolding m by simp
qed

theorem unreachable_target_polls_on_witness:
  "status (main_V3 calm_env \<lparr>arg_help = False, arg_website = Some ''example.com'', arg_port = None, arg_interval = None\<rparr> 25)
     = Running \<and>
   check_count (main_V3 calm_env \<lparr>arg_help = False, arg_website = Some ''example.com'', arg_port = None, arg_interval = None\<rparr> 25)
     = 3 \<and>
   slept (main_V3 calm_env \<lparr>arg_help = False, arg_website = Some ''example.com'', arg_port = None, arg_interval = None\<rparr> 25)
     = [60, 60] \<and>
   prefix ''Error: ''
     (result (main_V3 calm_env \<lparr>arg_help = False, arg_website = Some ''example.com'', arg_port = None, arg_interval = None\<rparr> 25))"
proof -
  have p: "parse_args_V3 \<lparr>arg_help = False, arg_website = Some ''example.com'', arg_port = None, arg_interval = None\<rparr>
             = Accepted (''example.com'', 443, 60)"
    by (simp add: parse_args_V3_def int_option_def)
  have a: "\<forall>t. sleep_accepts (monotonic_ns calm_env t) 60"
    by (simp add: calm_env_def sleep_accepts_def pytime_max_secs_def pytime_max_def)
  have q: "\<forall>t. \<not> sigint calm_env t \<and> \<not> sleep_interrupted calm_env t"
    by simp
  have f: "\<forall>t cmd. failed_check (subprocess_run calm_env t cmd) \<and>
      subprocess_run calm_env t cmd \<noteq> Inl KeyboardInterrupt"
    by simp
  have b: "(0::int) < 60" "(0::int) < 443" "(443::int) \<le> 65535"
    by simp_all
  have r: "replicate 2 (60::int) = [60, 60]"
    by (simp add: numeral_2_eq_2)
  from unreachable_target_polls_on [OF p b a q f, of 25]
  show ?thesis
    by (simp add: r)
qed

text \<open>
  Claim C5 as stated fails: with \<^verbatim>\<open>-i 9223372037\<close> the command line passes the
  checks, the first check of the unreachable target is made, and \<^verbatim>\<open>time.sleep\<close> then
  raises \<^verbatim>\<open>OverflowError\<close>, which nothing catches: the process ends on its own, with
  exit status 1.
\<close>

theorem huge_interval_ends_the_process:
  "status (main_V3 calm_env
      \<lparr>arg_help = False, arg_website = Some ''example.com'', arg_port = None, arg_interval = Some ''9223372037''\<rparr> 10)
     = Uncaught (OtherException ''timestamp too large to convert to C _PyTime_t'') \<and>
   exit_code (status (main_V3 calm_env
      \<lparr>arg_help = False, arg_website = Some ''example.com'', arg_port = None, arg_interval = Some ''9223372037''\<rparr> 10))
     = Some 1"
proof -
  have p: "parse_args_V3
      \<lparr>arg_help = False, arg_website = Some ''example.com'', arg_port = None, arg_interval = Some ''9223372037''\<rparr>
        = Accepted (''example.com'', 443, 9223372037)"
    by (simp add: parse_args_V3_def int_option_def int_eval)
  have m: "main_V3 calm_env
      \<lparr>arg_help = False, arg_website = Some ''example.com'', arg_port = None, arg_interval = Some ''9223372037''\<rparr> 10
      = exec calm_env (cfg_V3 calm_env ''example.com'' 443 9223372037) 10
          (start_V3 calm_env ''example.com'' 443 9223372037)"
    by (simp add: main_V3_def p)
  show ?thesis
    unfolding m
    using first_cycle_then_sleep_rejected
      [where cfg = "cfg_V3 calm_env ''example.com'' 443 9223372037"
         and ?s0.0 = "start_V3 calm_env ''example.com'' 443 9223372037"]
    by (simp add: pytime_max_secs_def)
qed

lemma not_less_nine: "t < 5 \<Longrightarrow> t mod 10 \<noteq> (9::nat)"
  by simp

section \<open>The check counter at cancellation\<close>

lemma header_ctrl_c_env_fields [simp]:
  "sigint header_ctrl_c_env t = (t = 3)" "sleep_interrupted header_ctrl_c_env t = False"
  "subprocess_run header_ctrl_c_env t = refused" "append_to header_ctrl_c_env t name text = None"
  "strftime header_ctrl_c_env t = fixed_clock" "monotonic_ns header_ctrl_c_env t = 3600000000000"
  by (simp_all add: header_ctrl_c_env_def calm_env_def)

lemma on_interrupt_output:
  assumes "\<forall>text. append_to env (clock s) (cfg_log cfg) text = None"
  shows "console (on_interrupt env cfg s) =
           console s @
           [cfg_final cfg (strftime env (clock s) ''%Y-%m-%d %H:%M:%S'') (check_count s) @ NL,
            (''Results saved to: '' @ cfg_log cfg) @ NL, replicate 80 CHR ''='' @ NL]"
    and "files (on_interrupt env cfg s) (cfg_log cfg) =
           files s (cfg_log cfg) @
           [cfg_final cfg (strftime env (clock s) ''%Y-%m-%d %H:%M:%S'') (check_count s) @ NL,
            (''Results saved to: '' @ cfg_log cfg) @ NL, replicate 80 CHR ''='' @ NL]"
  using assms by (simp_all add: on_interrupt_def Let_def write_to_file_def print_def)

lemma summary_V2:
  "cfg_final (cfg_V2 env interval) ''2025-01-01 12:00:00'' 1 =
     NL @ ''[2025-01-01 12:00:00] SSL certificate monitoring stopped after 1 checks.''"
  by (simp add: cfg_V2_def str_int_def str_nat.simps digit_char_def)

lemma counted_step:
  assumes "counted s"
  shows "counted (step env cfg s)"
proof (cases "status s = Running")
  case False
  then show ?thesis
    using assms by simp
next
  case True
  show ?thesis
  proof (cases "sigint env (clock s)")
    case True
    then show ?thesis
      using assms \<open>status s = Running\<close> by (simp add: step_sigint counted_def)
  next
    case False
    show ?thesis
    proof (cases "pc s")
      case Inspect
      then show ?thesis
        using assms \<open>status s = Running\<close> False
        by (auto simp: counted_def step_def statement_def check_ssl_certificate_def Let_def
            split: sum.splits exn.splits prod.splits)
    next
      case Sleep
      then show ?thesis
        using assms \<open>status s = Running\<close> False
        by (auto simp: counted_def step_def statement_def time_sleep_def)
    qed (use assms \<open>status s = Running\<close> False in
          \<open>simp_all add: counted_def step_def statement_def\<close>)
  qed
qed

lemma counted_exec: "counted s0 \<Longrightarrow> counted (exec env cfg n s0)"
  by (induction n) (simp_all add: counted_step)

text \<open>In every run of \<^verbatim>\<open>ssl_checkV2.py\<close>, at every step, \<^verbatim>\<open>check_count\<close> is the
  number of checks made or one more: never fewer.\<close>

lemma count_brackets_invocations:
  "int (length (spawned (main_V2 env argv n))) \<le> check_count (main_V2 env argv n) \<and>
   check_count (main_V2 env argv n) \<le> int (length (spawned (main_V2 env argv n))) + 1"
proof (cases "interval_V2 argv")
  case None
  then show ?thesis
    by (simp add: main_V2_def)
next
  case (Some interval)
  have "counted (start_V2 env interval)"
    by (simp add: counted_def)
  then have "counted (exec env (cfg_V2 env interval) n (start_V2 env interval))"
    by (rule counted_exec)
  then show ?thesis
    using Some by (auto simp: main_V2_def counted_def split: if_splits)
qed

text \<open>
  Claim C2 fails on the code. \<^verbatim>\<open>ssl_checkV2.py\<close> is started without arguments and the
  signal arrives in the first cycle, after \<^verbatim>\<open>check_count += 1\<close> and the printing of
  the check header and before \<^verbatim>\<open>check_ssl_certificate\<close> is called. The handler then
  reports one check and exits with code 0, and \<^verbatim>\<open>subprocess.run\<close> was never called.
\<close>

theorem summary_counts_a_check_not_made:
  "status (main_V2 header_ctrl_c_env [] 4) = SysExit 0 \<and>
   check_count (main_V2 header_ctrl_c_env [] 4) = 1 \<and>
   spawned (main_V2 header_ctrl_c_env [] 4) = [] \<and>
   (NL @ ''[2025-01-01 12:00:00] SSL certificate monitoring stopped after 1 checks.'') @ NL
     \<in> set (console (main_V2 header_ctrl_c_env [] 4))"
proof -
  define cfg where "cfg = cfg_V2 header_ctrl_c_env 60"
  define s where "s = exec header_ctrl_c_env cfg 3 (start_V2 header_ctrl_c_env 60)"
  have quiet: "\<not> cancelled_before header_ctrl_c_env cfg 3"
    by (simp add: cancelled_before_def interrupted_def refused_def)
  have sl: "\<forall>t<3. t mod 10 = 9 \<longrightarrow>
      sleep_accepts (monotonic_ns header_ctrl_c_env t) (cfg_interval cfg)"
    by (simp add: sleep_accepts_def pytime_max_secs_def pytime_max_def cfg_def)
  have three: "status s = Running \<and> clock s = 3 \<and> idx (pc s) = 3 mod 10 \<and>
         slept s = replicate (3 div 10) (cfg_interval cfg) \<and>
         check_count s = int ((3 + 9) div 10) \<and>
         spawned s = replicate ((3 + 5) div 10) (openssl_command (cfg_host cfg) (cfg_port cfg)) \<and>
         ((\<forall>t<3. failed_check (subprocess_run header_ctrl_c_env t
              (openssl_command (cfg_host cfg) (cfg_port cfg))))
            \<longrightarrow> 4 < (3::nat) mod 10 \<longrightarrow> prefix ''Error: '' (result s))"
    unfolding s_def
    by (rule loop_prefix [where n = 3, OF _ _ _ _ _ _ sl quiet]) simp_all
  then have r: "status s = Running" and c: "clock s = 3" and k: "check_count s = 1"
    and sp: "spawned s = []"
    by simp_all
  have m: "main_V2 header_ctrl_c_env [] 4 = step header_ctrl_c_env cfg s"
    by (simp add: main_V2_def interval_V2_def cfg_def s_def eval_nat_numeral)
  have st: "step header_ctrl_c_env cfg s = on_interrupt header_ctrl_c_env cfg (s\<lparr>clock := clock s + 1\<rparr>)"
    using r c by (simp add: step_sigint)
  have out: "console (on_interrupt header_ctrl_c_env cfg (s\<lparr>clock := clock s + 1\<rparr>)) =
      console s @
      [cfg_final cfg ''2025-01-01 12:00:00'' 1 @ NL,
       (''Results saved to: '' @ cfg_log cfg) @ NL, replicate 80 CHR ''='' @ NL]"
    using on_interrupt_output(1) [where env = header_ctrl_c_env and cfg = cfg
        and s = "s\<lparr>clock := clock s + 1\<rparr>"] k
    by (simp add: fixed_clock_def)
  show ?thesis
    unfolding m st using k sp out by (simp add: cfg_def summary_V2)
qed

section \<open>Settings outside their range\<close>

lemma five_steps:
  assumes "status s0 = Running" and "clock s0 = 0" and "pc s0 = Increment"
    and "check_count s0 = 0" and "slept s0 = []" and "spawned s0 = []"
  shows "status (exec calm_env cfg 5 s0) = Running \<and>
         spawned (exec calm_env cfg 5 s0) = [openssl_command (cfg_host cfg) (cfg_port cfg)]"
proof -
  have "status (exec calm_env cfg 5 s0) = Running \<and> clock (exec calm_env cfg 5 s0) = 5 \<and>
         idx (pc (exec calm_env cfg 5 s0)) = 5 mod 10 \<and>
         slept (exec calm_env cfg 5 s0) = replicate (5 div 10) (cfg_interval cfg) \<and>
         check_count (exec calm_env cfg 5 s0) = int ((5 + 9) div 10) \<and>
         spawned (exec calm_env cfg 5 s0) =
           replicate ((5 + 5) div 10) (openssl_command (cfg_host cfg) (cfg_port cfg)) \<and>
         ((\<forall>t<5. failed_check (subprocess_run calm_env t
              (openssl_command (cfg_host cfg) (cfg_port cfg))))
            \<longrightarrow> 4 < (5::nat) mod 10 \<longrightarrow> prefix ''Error: '' (result (exec calm_env cfg 5 s0)))"
    by (rule loop_prefix [where n = 5, OF assms])
      (use not_less_nine in \<open>simp_all\<close>)
  then show ?thesis
    by simp
qed

text \<open>
  Claim C3 fails on the code. \<^verbatim>\<open>ssl_checker_with_server_and_website.py\<close> with the
  server argument \<^verbatim>\<open>example.com:70000\<close> enters the loop and runs the check against
  port 70000; \<^verbatim>\<open>ssl_checkV2.py\<close> with the interval argument \<^verbatim>\<open>0\<close> enters the loop
  and runs the check; with the interval argument \<^verbatim>\<open>-5\<close> it runs the first check and
  ends only when \<^verbatim>\<open>time.sleep\<close> raises \<^verbatim>\<open>ValueError\<close>.
\<close>

theorem unchecked_settings_reach_the_network:
  "status (main_server calm_env
      \<lparr>srv_help = False, srv_server = Some ''example.com:70000'', srv_website = Some ''example.com'',
        srv_interval = None\<rparr> 5) = Running \<and>
   spawned (main_server calm_env
      \<lparr>srv_help = False, srv_server = Some ''example.com:70000'', srv_website = Some ''example.com'',
        srv_interval = None\<rparr> 5) = [openssl_command ''example.com'' 70000] \<and>
   status (main_V2 calm_env [''0''] 5) = Running \<and>
   spawned (main_V2 calm_env [''0''] 5) = [openssl_command ''login.emory.edu'' 443] \<and>
   spawned (main_V2 calm_env [''-5''] 10) = [openssl_command ''login.emory.edu'' 443] \<and>
   status (main_V2 calm_env [''-5''] 10) =
     Uncaught (OtherException ''sleep length must be non-negative'')"
proof -
  have p: "parse_args_server
      \<lparr>srv_help = False, srv_server = Some ''example.com:70000'', srv_website = Some ''example.com'', srv_interval = None\<rparr>
        = Accepted (''example.com:70000'', ''example.com'', 60)"
    by (simp add: parse_args_server_def int_option_def)
  have h: "parse_hostname_port ''example.com:70000'' = Inr (''example.com'', 70000)"
    by (simp add: parse_hostname_port_def rsplit_colon_def int_eval)
  have a: "main_server calm_env
      \<lparr>srv_help = False, srv_server = Some ''example.com:70000'', srv_website = Some ''example.com'', srv_interval = None\<rparr> 5
      = exec calm_env (cfg_server calm_env ''example.com'' 70000 ''example.com'' 60) 5
          (start_server calm_env ''example.com'' 70000 ''example.com'' 60)"
    by (simp add: main_server_def p h)
  have z: "interval_V2 [''0''] = Some 0"
    by (simp add: interval_V2_def int_eval)
  have n: "interval_V2 [''-5''] = Some (- 5)"
    by (simp add: interval_V2_def int_eval)
  have b: "main_V2 calm_env [''0''] 5 = exec calm_env (cfg_V2 calm_env 0) 5 (start_V2 calm_env 0)"
    by (simp add: main_V2_def z)
  have c: "main_V2 calm_env [''-5''] 10 =
      exec calm_env (cfg_V2 calm_env (- 5)) 10 (start_V2 calm_env (- 5))"
    by (simp add: main_V2_def n)
  show ?thesis
    unfolding a b c
    using five_steps [where cfg = "cfg_server calm_env ''example.com'' 70000 ''example.com'' 60"
        and ?s0.0 = "start_server calm_env ''example.com'' 70000 ''example.com'' 60"]
      five_steps [where cfg = "cfg_V2 calm_env 0" and ?s0.0 = "start_V2 calm_env 0"]
      first_cycle_then_sleep_rejected [where cfg = "cfg_V2 calm_env (- 5)"
        and ?s0.0 = "start_V2 calm_env (- 5)"]
    by (simp add: pytime_max_secs_def)
qed

section \<open>A log file that cannot be written\<close>

lemma step_write_fails:
  assumes "status s = Running" and "\<not> sigint env (clock s)" and "mid_pair (pc s)"
    and "\<forall>text. append_to env (clock s) (cfg_log cfg) text = Some e"
  shows "status (step env cfg s) = Running \<and> idx (pc (step env cfg s)) = Suc (idx (pc s)) \<and>
         files (step env cfg s) = files s \<and>
         console (step env cfg s) = console s @ [(''Error writing to file: '' @ e) @ NL]"
  using assms
  by (cases "pc s") (simp_all add: mid_pair_def step_def statement_def write_to_file_def print_def)

lemma files_write_fails:
  "fs_append filename (content @ NL) \<noteq> None \<Longrightarrow>
     files (write_to_file fs_append filename content w) = files w"
  by (auto simp: write_to_file_def print_def)

lemma files_on_interrupt_fails:
  assumes "\<forall>t name text. append_to env t name text \<noteq> None"
  shows "files (on_interrupt env cfg s) = files s"
  using assms by (simp add: on_interrupt_def Let_def files_write_fails)

lemma files_step_fails:
  assumes "\<forall>t name text. append_to env t name text \<noteq> None"
  shows "files (step env cfg s) = files s"
proof (cases "status s = Running")
  case False
  then show ?thesis
    by simp
next
  case True
  show ?thesis
  proof (cases "sigint env (clock s)")
    case True
    then show ?thesis
      using \<open>status s = Running\<close> files_on_interrupt_fails [OF assms]
      by (simp add: step_sigint)
  next
    case False
    show ?thesis
    proof (cases "pc s")
      case Inspect
      then show ?thesis
        using \<open>status s = Running\<close> False files_on_interrupt_fails [OF assms]
        by (auto simp: step_def statement_def check_ssl_certificate_def Let_def
            split: sum.splits exn.splits prod.splits)
    next
      case Sleep
      then show ?thesis
        using \<open>status s = Running\<close> False files_on_interrupt_fails [OF assms]
        by (auto simp: step_def statement_def time_sleep_def)
    qed (use assms \<open>status s = Running\<close> False in
          \<open>simp_all add: step_def statement_def files_write_fails\<close>)
  qed
qed

lemma files_exec_fails:
  "\<forall>t name text. append_to env t name text \<noteq> None \<Longrightarrow> files (exec env cfg n s0) = files s0"
  by (induction n) (simp_all add: files_step_fails)

lemma files_start_V2_fails:
  "\<forall>t name text. append_to env t name text \<noteq> None \<Longrightarrow> files (start_V2 env interval) = (\<lambda>name. [])"
  by (simp add: start_V2_def announce_def files_write_fails)

lemma readonly_env_fields [simp]:
  "sigint readonly_env t = False" "sleep_interrupted readonly_env t = False"
  "subprocess_run readonly_env t = refused" "append_to readonly_env t = denied"
  "strftime readonly_env t = fixed_clock" "monotonic_ns readonly_env t = 3600000000000"
  by (simp_all add: readonly_env_def calm_env_def)

text \<open>
  Claim C7. When the append to the log file raises an exception \<open>e\<close>,
  \<^verbatim>\<open>write_to_file\<close> returns, having printed \<^verbatim>\<open>Error writing to file: \<close> and
  \<^verbatim>\<open>str(e)\<close> and nothing else; a step of the loop that is such a write leaves the
  process running at the next statement with the files as they were. Whatever the
  appends do, \<^verbatim>\<open>ssl_checkV2.py\<close> goes through its cycles as it does when they
  succeed: after any number of steps before which no interrupt arrived (\<^verbatim>\<open>time.sleep\<close>
  accepting the interval whenever it is called) it is running at the place in the cycle
  the step count gives, has counted one check per cycle begun, has started one check
  per cycle that reached it, and has slept after each completed cycle. When every
  append fails, no file ever receives anything.
\<close>

theorem write_failure_is_reported_and_survived:
  "(fs_append filename (content @ NL) = Some e \<longrightarrow>
      write_to_file fs_append filename content w =
        w\<lparr>console := console w @ [(''Error writing to file: '' @ e) @ NL]\<rparr>) \<and>
   (status s = Running \<and> \<not> sigint env (clock s) \<and> mid_pair (pc s) \<and>
    (\<forall>text. append_to env (clock s) (cfg_log cfg) text = Some e) \<longrightarrow>
      status (step env cfg s) = Running \<and> idx (pc (step env cfg s)) = Suc (idx (pc s)) \<and>
      files (step env cfg s) = files s \<and>
      console (step env cfg s) = console s @ [(''Error writing to file: '' @ e) @ NL]) \<and>
   (interval_V2 argv = Some interval \<and> (\<forall>t. sleep_accepts (monotonic_ns env t) interval) \<and>
    \<not> cancelled_before env (cfg_V2 env interval) n \<longrightarrow>
      status (main_V2 env argv n) = Running \<and>
      idx (pc (main_V2 env argv n)) = n mod 10 \<and>
      check_count (main_V2 env argv n) = int ((n + 9) div 10) \<and>
      spawned (main_V2 env argv n) =
        replicate ((n + 5) div 10) (openssl_command ''login.emory.edu'' 443) \<and>
      slept (main_V2 env argv n) = replicate (n div 10) interval) \<and>
   (interval_V2 argv = Some interval \<and> (\<forall>t name text. append_to env t name text \<noteq> None) \<longrightarrow>
      files (main_V2 env argv n) = (\<lambda>name. []))"
proof (intro conjI impI)
  assume "fs_append filename (content @ NL) = Some e"
  then show "write_to_file fs_append filename content w =
        w\<lparr>console := console w @ [(''Error writing to file: '' @ e) @ NL]\<rparr>"
    by (simp add: write_to_file_def print_def)
next
  assume h: "status s = Running \<and> \<not> sigint env (clock s) \<and> mid_pair (pc s) \<and>
    (\<forall>text. append_to env (clock s) (cfg_log cfg) text = Some e)"
  then have st: "status (step env cfg s) = Running \<and> idx (pc (step env cfg s)) = Suc (idx (pc s)) \<and>
         files (step env cfg s) = files s \<and>
         console (step env cfg s) = console s @ [(''Error writing to file: '' @ e) @ NL]"
    using step_write_fails [of s env cfg e] by blast
  from st show "status (step env cfg s) = Running" by simp
  from st show "idx (pc (step env cfg s)) = Suc (idx (pc s))" by simp
  from st show "files (step env cfg s) = files s" by simp
  from st show "console (step env cfg s) = console s @ [(''Error writing to file: '' @ e) @ NL]" by simp
next
  assume h: "interval_V2 argv = Some interval \<and> (\<forall>t. sleep_accepts (monotonic_ns env t) interval) \<and>
    \<not> cancelled_before env (cfg_V2 env interval) n"
  define r where "r = exec env (cfg_V2 env interval) n (start_V2 env interval)"
  have m: "main_V2 env argv n = r"
    using h by (simp add: main_V2_def r_def)
  have sl: "\<forall>t<n. t mod 10 = 9 \<longrightarrow>
      sleep_accepts (monotonic_ns env t) (cfg_interval (cfg_V2 env interval))"
    using h by simp
  have q: "\<not> cancelled_before env (cfg_V2 env interval) n"
    using h by simp
  have p: "status r = Running \<and> clock r = n \<and> idx (pc r) = n mod 10 \<and>
         slept r = replicate (n div 10) (cfg_interval (cfg_V2 env interval)) \<and>
         check_count r = int ((n + 9) div 10) \<and>
         spawned r = replicate ((n + 5) div 10)
           (openssl_command (cfg_host (cfg_V2 env interval)) (cfg_port (cfg_V2 env interval))) \<and>
         ((\<forall>t<n. failed_check (subprocess_run env t
              (openssl_command (cfg_host (cfg_V2 env interval)) (cfg_port (cfg_V2 env interval)))))
            \<longrightarrow> 4 < n mod 10 \<longrightarrow> prefix ''Error: '' (result r))"
    unfolding r_def
    by (rule loop_prefix [where n = n, OF _ _ _ _ _ _ sl q]) simp_all
  from p show "status (main_V2 env argv n) = Running"
    unfolding m by simp
  from p show "idx (pc (main_V2 env argv n)) = n mod 10"
    unfolding m by simp
  from p show "check_count (main_V2 env argv n) = int ((n + 9) div 10)"
    unfolding m by simp
  from p show "spawned (main_V2 env argv n) =
        replicate ((n + 5) div 10) (openssl_command ''login.emory.edu'' 443)"
    unfolding m by simp
  from p show "slept (main_V2 env argv n) = replicate (n div 10) interval"
    unfolding m by simp
next
  assume h: "interval_V2 argv = Some interval \<and> (\<forall>t name text. append_to env t name text \<noteq> None)"
  then have "files (exec env (cfg_V2 env interval) n (start_V2 env interval)) = (\<lambda>name. [])"
    by (simp add: files_exec_fails files_start_V2_fails)
  then show "files (main_V2 env argv n) = (\<lambda>name. [])"
    using h by (simp add: main_V2_def)
qed

theorem write_failure_is_reported_and_survived_witness:
  "write_to_file denied ''ssl_check.log'' ''-----'' quiet_world =
     quiet_world\<lparr>console := console quiet_world @
       [(''Error writing to file: '' @ ''[Errno 13] Permission denied'') @ NL]\<rparr> \<and>
   status (step readonly_env (cfg_V2 readonly_env 60) (boot\<lparr>pc := LogResult\<rparr>)) = Running \<and>
   console (step readonly_env (cfg_V2 readonly_env 60) (boot\<lparr>pc := LogResult\<rparr>)) =
     console (boot\<lparr>pc := LogResult\<rparr>) @
       [(''Error writing to file: '' @ ''[Errno 13] Permission denied'') @ NL] \<and>
   status (main_V2 readonly_env [] 25) = Running \<and>
   check_count (main_V2 readonly_env [] 25) = 3 \<and>
   length (spawned (main_V2 readonly_env [] 25)) = 3 \<and>
   slept (main_V2 readonly_env [] 25) = [60, 60] \<and>
   files (main_V2 readonly_env [] 25) = (\<lambda>name. [])"
proof -
  have a: "denied ''ssl_check.log'' (''-----'' @ NL) = Some ''[Errno 13] Permission denied''"
    by (simp add: denied_def)
  have b: "status (boot\<lparr>pc := LogResult\<rparr>) = Running \<and>
      \<not> sigint readonly_env (clock (boot\<lparr>pc := LogResult\<rparr>)) \<and>
      mid_pair (pc (boot\<lparr>pc := LogResult\<rparr>)) \<and>
      (\<forall>text. append_to readonly_env (clock (boot\<lparr>pc := LogResult\<rparr>))
          (cfg_log (cfg_V2 readonly_env 60)) text = Some ''[Errno 13] Permission denied'')"
    by (simp add: mid_pair_def denied_def)
  have "\<not> interrupted readonly_env (cfg_V2 readonly_env 60) t" for t
    by (simp add: interrupted_def refused_def)
  then have c: "interval_V2 [] = Some 60 \<and> (\<forall>t. sleep_accepts (monotonic_ns readonly_env t) 60) \<and>
      \<not> cancelled_before readonly_env (cfg_V2 readonly_env 60) 25"
    by (simp add: interval_V2_def sleep_accepts_def pytime_max_secs_def pytime_max_def cancelled_before_def)
  have d: "interval_V2 [] = Some 60 \<and> (\<forall>t name text. append_to readonly_env t name text \<noteq> None)"
    by (simp add: interval_V2_def denied_def)
  have r: "replicate 2 (60::int) = [60, 60]"
    by (simp add: numeral_2_eq_2)
  note t = write_failure_is_reported_and_survived
      [where fs_append = denied and filename = "''ssl_check.log''" and content = "''-----''"
         and e = "''[Errno 13] Permission denied''" and w = quiet_world
         and s = "boot\<lparr>pc := LogResult\<rparr>" and env = readonly_env
         and cfg = "cfg_V2 readonly_env 60" and argv = "[]" and interval = 60 and n = 25]
  note 1 = t [THEN conjunct1, THEN mp, OF a]
  note 2 = t [THEN conjunct2, THEN conjunct1, THEN mp, OF b]
  note 3 = t [THEN conjunct2, THEN conjunct2, THEN conjunct1, THEN mp, OF c]
  note 4 = t [THEN conjunct2, THEN conjunct2, THEN conjunct2, THEN mp, OF d]
  from 1 2 3 4 show ?thesis
    by (intro conjI) (simp_all add: r)
qed

section \<open>The console and the log file\<close>

lemma mirrored_statement:
  assumes "\<forall>t name text. append_to env t name text = None"
    and "status s = Running" and "\<not> sigint env (clock s)" and "mirrored cfg h s"
  shows "status (step env cfg s) = Running \<or> \<not> mid_pair (pc (step env cfg s))
           \<longrightarrow> mirrored cfg h (step env cfg s)"
proof (cases "pc s")
  case Inspect
  then show ?thesis
    using assms
    by (auto simp: mirrored_def owed_def mid_pair_def step_def statement_def
        check_ssl_certificate_def on_interrupt_def write_to_file_def print_def Let_def
        split: sum.splits exn.splits prod.splits)
next
  case Sleep
  then show ?thesis
    using assms
    by (auto simp: mirrored_def owed_def mid_pair_def step_def statement_def
        time_sleep_def on_interrupt_def write_to_file_def print_def Let_def)
qed (use assms in \<open>simp_all add: mirrored_def owed_def mid_pair_def step_def statement_def
        check_header_def write_to_file_def print_def\<close>)


lemma mirrored_interrupt:
  assumes "\<forall>t name text. append_to env t name text = None"
    and "status s = Running" and "sigint env (clock s)" and "mirrored cfg h s"
  shows "\<not> mid_pair (pc (step env cfg s)) \<longrightarrow> mirrored cfg h (step env cfg s)"
  using assms
  by (simp add: step_sigint mirrored_def owed_def mid_pair_def on_interrupt_def
      write_to_file_def print_def Let_def)

lemma mirrored_step:
  assumes "\<forall>t name text. append_to env t name text = None"
    and "status s = Running \<or> \<not> mid_pair (pc s) \<longrightarrow> mirrored cfg h s"
  shows "status (step env cfg s) = Running \<or> \<not> mid_pair (pc (step env cfg s))
           \<longrightarrow> mirrored cfg h (step env cfg s)"
proof (cases "status s = Running")
  case False
  then show ?thesis
    using assms(2) by simp
next
  case True
  then have m: "mirrored cfg h s"
    using assms(2) by simp
  show ?thesis
  proof (cases "sigint env (clock s)")
    case True
    have "status (step env cfg s) \<noteq> Running"
      using \<open>status s = Running\<close> True by (simp add: step_sigint)
    then show ?thesis
      using mirrored_interrupt [OF assms(1) \<open>status s = Running\<close> True m] by simp
  next
    case False
    then show ?thesis
      using mirrored_statement [OF assms(1) \<open>status s = Running\<close> False m] by simp
  qed
qed

lemma mirrored_exec:
  assumes "\<forall>t name text. append_to env t name text = None"
    and "mirrored cfg h s0"
  shows "status (exec env cfg n s0) = Running \<or> \<not> mid_pair (pc (exec env cfg n s0))
           \<longrightarrow> mirrored cfg h (exec env cfg n s0)"
proof (induction n)
  case 0
  show ?case
    using assms(2) by simp
next
  case (Suc n)
  show ?case
    using mirrored_step [OF assms(1) Suc] by simp
qed

lemma cfg_log_V2 [simp]: "cfg_log (cfg_V2 env interval) = log_V2 env"
  by (simp add: cfg_V2_def)

lemma announce_output:
  assumes "append_to env 0 name (startup_msg details @ NL) = None"
  shows "console (announce env name details boot) = [startup_msg details @ NL, hint @ NL]"
    and "files (announce env name details boot) name = [startup_msg details @ NL]"
  using assms by (simp_all add: announce_def write_to_file_def print_def)

lemma mirrored_start_V2:
  assumes "\<forall>t name text. append_to env t name text = None"
  shows "mirrored (cfg_V2 env interval) (hint @ NL) (start_V2 env interval)"
  using assms
  by (simp add: mirrored_def owed_def start_V2_def announce_output)

lemma heads_differ: "hd a \<noteq> hd b \<Longrightarrow> a \<noteq> b"
  by auto

lemma prompt_ctrl_c_env_fields [simp]:
  "sigint prompt_ctrl_c_env t = (t = 0)" "append_to prompt_ctrl_c_env t name text = None"
  "strftime prompt_ctrl_c_env t = fixed_clock"
  by (simp_all add: prompt_ctrl_c_env_def calm_env_def)

text \<open>
  Claim C4, as amended, for \<^verbatim>\<open>ssl_checkV2.py\<close>. When every append to the log
  succeeds, and the process is not (and was not cancelled) between a \<^verbatim>\<open>print\<close> and
  the \<^verbatim>\<open>write_to_file\<close> that follows it, the console holds the banner, the hint
  \<^verbatim>\<open>Press Ctrl+C to stop\<close> and then, in the same order, exactly what the log file
  holds after the banner: the hint is the one console line that is not logged.
\<close>

theorem log_holds_the_console_but_the_hint:
  assumes "interval_V2 argv = Some interval"
    and "\<forall>t name text. append_to env t name text = None"
    and "\<not> mid_pair (pc (main_V2 env argv n))"
  shows "\<exists>banner rest.
           console (main_V2 env argv n) = banner # (hint @ NL) # rest \<and>
           files (main_V2 env argv n) (log_V2 env) = banner # rest"
proof -
  define s where "s = exec env (cfg_V2 env interval) n (start_V2 env interval)"
  have m: "main_V2 env argv n = s"
    using assms(1) by (simp add: main_V2_def s_def)
  have np: "\<not> mid_pair (pc s)"
    using assms(3) m by simp
  then have "mirrored (cfg_V2 env interval) (hint @ NL) s"
    unfolding s_def
    using mirrored_exec [OF assms(2) mirrored_start_V2 [OF assms(2), of interval]]
    by simp
  moreover have "owed (cfg_V2 env interval) s = []"
    using np by (simp add: owed_def mid_pair_def)
  ultimately have f: "files s (log_V2 env) \<noteq> []"
    and c: "console s = hd (files s (log_V2 env)) # (hint @ NL) # tl (files s (log_V2 env))"
    by (simp_all add: mirrored_def)
  from f have "files s (log_V2 env) = hd (files s (log_V2 env)) # tl (files s (log_V2 env))"
    by simp
  with c show ?thesis
    unfolding m by blast
qed

theorem log_holds_the_console_but_the_hint_witness:
  "\<exists>banner rest.
     console (main_V2 calm_env [] 10) = banner # (hint @ NL) # rest \<and>
     files (main_V2 calm_env [] 10) (log_V2 calm_env) = banner # rest"
proof -
  have i: "interval_V2 [] = Some 60"
    by (simp add: interval_V2_def)
  have a: "\<forall>t name text. append_to calm_env t name text = None"
    by simp
  define s where "s = exec calm_env (cfg_V2 calm_env 60) 10 (start_V2 calm_env 60)"
  have "status s = Running \<and> clock s = 10 \<and> idx (pc s) = 10 mod 10 \<and>
         slept s = replicate (10 div 10) (cfg_interval (cfg_V2 calm_env 60)) \<and>
         check_count s = int ((10 + 9) div 10) \<and>
         spawned s = replicate ((10 + 5) div 10)
           (openssl_command (cfg_host (cfg_V2 calm_env 60)) (cfg_port (cfg_V2 calm_env 60))) \<and>
         ((\<forall>t<10. failed_check (subprocess_run calm_env t
              (openssl_command (cfg_host (cfg_V2 calm_env 60)) (cfg_port (cfg_V2 calm_env 60)))))
            \<longrightarrow> 4 < (10::nat) mod 10 \<longrightarrow> prefix ''Error: '' (result s))"
    unfolding s_def by (rule loop_prefix [where n = 10]) simp_all
  then have "pc s = Increment"
    by (simp add: idx_iff)
  then have p: "\<not> mid_pair (pc (main_V2 calm_env [] 10))"
    by (simp add: main_V2_def i s_def mid_pair_def)
  from log_holds_the_console_but_the_hint [OF i a p] show ?thesis .
qed

text \<open>
  Claim C4 as stated fails: in a run cancelled as soon as the loop is entered, with
  every append succeeding, the hint has been printed and is not in the log file.
\<close>

theorem hint_is_on_the_console_only:
  "status (main_V2 prompt_ctrl_c_env [] 1) = SysExit 0 \<and>
   hint @ NL \<in> set (console (main_V2 prompt_ctrl_c_env [] 1)) \<and>
   hint @ NL \<notin> set (files (main_V2 prompt_ctrl_c_env [] 1) (log_V2 prompt_ctrl_c_env))"
proof -
  define cfg where "cfg = cfg_V2 prompt_ctrl_c_env 60"
  define s where "s = (start_V2 prompt_ctrl_c_env 60)\<lparr>clock := 1\<rparr>"
  have m: "main_V2 prompt_ctrl_c_env [] 1 = on_interrupt prompt_ctrl_c_env cfg s"
    by (simp add: main_V2_def interval_V2_def cfg_def s_def step_sigint)
  obtain details where st: "start_V2 prompt_ctrl_c_env 60 =
      announce prompt_ctrl_c_env (log_V2 prompt_ctrl_c_env) details boot"
    by (simp add: start_V2_def)
  have c0: "console s = [startup_msg details @ NL, hint @ NL]"
    and f0: "files s (log_V2 prompt_ctrl_c_env) = [startup_msg details @ NL]"
    by (simp_all add: s_def st announce_output)
  have l: "cfg_log cfg = log_V2 prompt_ctrl_c_env"
    by (simp add: cfg_def)
  have ok: "\<forall>text. append_to prompt_ctrl_c_env (clock s) (cfg_log cfg) text = None"
    by simp
  have c1: "console (on_interrupt prompt_ctrl_c_env cfg s) =
      [startup_msg details @ NL, hint @ NL] @
      [cfg_final cfg (strftime prompt_ctrl_c_env (clock s) ''%Y-%m-%d %H:%M:%S'') (check_count s) @ NL,
       (''Results saved to: '' @ cfg_log cfg) @ NL, replicate 80 CHR ''='' @ NL]"
    using on_interrupt_output(1) [OF ok] c0 by simp
  have f1: "files (on_interrupt prompt_ctrl_c_env cfg s) (log_V2 prompt_ctrl_c_env) =
      [startup_msg details @ NL] @
      [cfg_final cfg (strftime prompt_ctrl_c_env (clock s) ''%Y-%m-%d %H:%M:%S'') (check_count s) @ NL,
       (''Results saved to: '' @ cfg_log cfg) @ NL, replicate 80 CHR ''='' @ NL]"
    using on_interrupt_output(2) [OF ok] f0 l by simp
  have d1: "hint @ NL \<noteq> startup_msg details @ NL"
    by (rule heads_differ) (simp add: hint_def startup_msg_def)
  have d2: "hint @ NL \<noteq> cfg_final cfg stamp count @ NL" for stamp count
    by (rule heads_differ) (simp add: hint_def cfg_def cfg_V2_def NL_def)
  have d3: "hint @ NL \<noteq> (''Results saved to: '' @ cfg_log cfg) @ NL"
    by (rule heads_differ) (simp add: hint_def)
  have d4: "hint @ NL \<noteq> replicate 80 CHR ''='' @ NL"
    by (rule heads_differ) (simp add: hint_def)
  show ?thesis
    unfolding m using c1 f1 d1 d2 d3 d4 by simp
qed

end
